theory Spec2Isabelle
  imports Main "HOL-Library.Sublist"
begin

section \<open>The assemble pipeline of proksee (src/proksee/pipelines/assemble.py)\<close>

subsection \<open>The file system the pipeline works on\<close>

text \<open>
  The pipeline reads and changes the output directory through \<open>os.path.isdir\<close>,
  \<open>os.path.isfile\<close>, \<open>os.mkdir\<close>, \<open>os.remove\<close>, \<open>os.rename\<close> and \<open>shutil.rmtree\<close>.
  A file system is a finite table from paths to the kind of entry found there. Paths are
  compared as they are written: there are no symbolic links, and \<open>.\<close>, \<open>..\<close> and repeated
  or trailing slashes are not normalised.
\<close>

type_synonym path = string

datatype node = File | Dir

type_synonym filesystem = "(path \<times> node) list"

datatype error =
    IndexError
  | FileExistsError path
  | FileNotFoundError path
  | IsADirectoryError path
  | NotADirectoryError path
  | OSError path

definition lookup :: "filesystem \<Rightarrow> path \<Rightarrow> node option" where
  "lookup fs p = map_of fs p"

definition os_path_isdir :: "filesystem \<Rightarrow> path \<Rightarrow> bool" where
  "os_path_isdir fs p = (lookup fs p = Some Dir)"

definition os_path_isfile :: "filesystem \<Rightarrow> path \<Rightarrow> bool" where
  "os_path_isfile fs p = (lookup fs p = Some File)"

text \<open>\<open>posixpath.join\<close> on two components.\<close>

definition os_path_join :: "path \<Rightarrow> path \<Rightarrow> path" where
  "os_path_join a b =
     (if take 1 b = ''/'' then b
      else if a = [] \<or> last a = CHR ''/'' then a @ b
      else a @ ''/'' @ b)"

text \<open>\<open>posixpath.dirname\<close>: the head up to the last slash, its trailing slashes stripped
  unless it consists of slashes only.\<close>

definition os_path_dirname :: "path \<Rightarrow> path" where
  "os_path_dirname p =
     (let hd_part = rev (dropWhile (\<lambda>c. c \<noteq> CHR ''/'') (rev p))
      in if hd_part \<noteq> [] \<and> \<not> list_all (\<lambda>c. c = CHR ''/'') hd_part
         then rev (dropWhile (\<lambda>c. c = CHR ''/'') (rev hd_part))
         else hd_part)"

text \<open>The directory an entry is created in exists when it is the working directory
  (empty head), the root, or a directory of the table.\<close>

definition parent_exists :: "filesystem \<Rightarrow> path \<Rightarrow> bool" where
  "parent_exists fs p =
     (let d = os_path_dirname p
      in d = [] \<or> list_all (\<lambda>c. c = CHR ''/'') d \<or> os_path_isdir fs d)"

text \<open>\<open>q\<close> lies below the directory \<open>d\<close>.\<close>

definition below :: "path \<Rightarrow> path \<Rightarrow> bool" where
  "below d q = (prefix (d @ ''/'') q \<and> q \<noteq> d @ ''/'')"

definition delete_entry :: "path \<Rightarrow> filesystem \<Rightarrow> filesystem" where
  "delete_entry p fs = filter (\<lambda>(q, k). q \<noteq> p) fs"

definition delete_tree :: "path \<Rightarrow> filesystem \<Rightarrow> filesystem" where
  "delete_tree d fs = filter (\<lambda>(q, k). q \<noteq> d \<and> \<not> below d q) fs"

definition os_mkdir :: "path \<Rightarrow> filesystem \<Rightarrow> error + filesystem" where
  "os_mkdir p fs =
     (if lookup fs p \<noteq> None then Inl (FileExistsError p)
      else if \<not> parent_exists fs p then Inl (FileNotFoundError p)
      else Inr ((p, Dir) # fs))"

definition os_remove :: "path \<Rightarrow> filesystem \<Rightarrow> error + filesystem" where
  "os_remove p fs =
     (case lookup fs p of
        None \<Rightarrow> Inl (FileNotFoundError p)
      | Some Dir \<Rightarrow> Inl (IsADirectoryError p)
      | Some File \<Rightarrow> Inr (delete_entry p fs))"

definition rmtree :: "path \<Rightarrow> filesystem \<Rightarrow> error + filesystem" where
  "rmtree p fs =
     (case lookup fs p of
        None \<Rightarrow> Inl (FileNotFoundError p)
      | Some File \<Rightarrow> Inl (NotADirectoryError p)
      | Some Dir \<Rightarrow> Inr (delete_tree p fs))"

text \<open>
  \<open>os.rename(src, dst)\<close>: a file replaces a file at \<open>dst\<close>; a directory moves with all
  that lies below it, onto nothing or onto an empty directory.
\<close>

definition move_tree :: "path \<Rightarrow> path \<Rightarrow> filesystem \<Rightarrow> filesystem" where
  "move_tree src dst fs =
     map (\<lambda>(q, k). (dst @ drop (length src) q, k))
         (filter (\<lambda>(q, k). q = src \<or> below src q) fs)
     @ delete_tree dst (delete_tree src fs)"

definition os_rename :: "path \<Rightarrow> path \<Rightarrow> filesystem \<Rightarrow> error + filesystem" where
  "os_rename src dst fs =
     (case lookup fs src of
        None \<Rightarrow> Inl (FileNotFoundError src)
      | Some File \<Rightarrow>
          (if os_path_isdir fs dst then Inl (IsADirectoryError dst)
           else if \<not> parent_exists fs dst then Inl (FileNotFoundError dst)
           else if src = dst then Inr fs
           else Inr ((dst, File) # delete_entry dst (delete_entry src fs)))
      | Some Dir \<Rightarrow>
          (if os_path_isfile fs dst then Inl (NotADirectoryError dst)
           else if \<not> parent_exists fs dst then Inl (FileNotFoundError dst)
           else if src = dst then Inr fs
           else if below src dst then Inl (OSError dst)
           else if list_ex (\<lambda>(q, k). below dst q) fs then Inl (OSError dst)
           else Inr (move_tree src dst fs)))"

subsection \<open>Cleanup of the output directory\<close>

text \<open>
  The names of the temporary files are class constants declared outside
  \<open>assemble.py\<close> (\<open>ContaminationHandler.FASTA_DIRECTORY\<close>,
  \<open>ReadFilterer.LOGFILE_FILENAME\<close>, ...); the pipeline takes them as they are, so they are
  a parameter here.
\<close>

record filenames =
  ContaminationHandler_FASTA_DIRECTORY :: path
  ReadFilterer_LOGFILE_FILENAME :: path
  ReadFilterer_FWD_FILTERED_FILENAME :: path
  ReadFilterer_REV_FILTERED_FILENAME :: path
  SpeciesEstimator_OUTPUT_FILENAME :: path
  AssemblyMeasurer_OUTPUT_FILENAME :: path
  AssemblyMeasurer_ERROR_FILENAME :: path
  SkesaAssembler_DIRECTORY_NAME :: path
  SpadesAssembler_DIRECTORY_NAME :: path

text \<open>Sequencing of steps that may raise: the first exception ends the sequence.\<close>

definition and_then :: "error + 'a \<Rightarrow> ('a \<Rightarrow> error + 'b) \<Rightarrow> error + 'b" where
  "and_then m f = (case m of Inl e \<Rightarrow> Inl e | Inr x \<Rightarrow> f x)"

definition cleanup :: "filenames \<Rightarrow> path \<Rightarrow> filesystem \<Rightarrow> error + filesystem" where
  "cleanup N output_directory fs0 =
    (let fasta_directory = os_path_join output_directory (ContaminationHandler_FASTA_DIRECTORY N);
         filterer_logfile_path = os_path_join output_directory (ReadFilterer_LOGFILE_FILENAME N);
         fwd_filtered_path = os_path_join output_directory (ReadFilterer_FWD_FILTERED_FILENAME N);
         rev_filtered_path = os_path_join output_directory (ReadFilterer_REV_FILTERED_FILENAME N);
         species_estimation_path = os_path_join output_directory (SpeciesEstimator_OUTPUT_FILENAME N);
         assembly_measurer_output_path =
           os_path_join output_directory (AssemblyMeasurer_OUTPUT_FILENAME N);
         assembly_measurer_error_path =
           os_path_join output_directory (AssemblyMeasurer_ERROR_FILENAME N);
         skesa_directory = os_path_join output_directory (SkesaAssembler_DIRECTORY_NAME N);
         spades_directory = os_path_join output_directory (SpadesAssembler_DIRECTORY_NAME N)
     in
     and_then (if os_path_isdir fs0 fasta_directory then rmtree fasta_directory fs0 else Inr fs0)
     (\<lambda>fs1. and_then (if os_path_isfile fs1 filterer_logfile_path
                       then os_remove filterer_logfile_path fs1 else Inr fs1)
     (\<lambda>fs2. and_then (if os_path_isfile fs2 fwd_filtered_path
                       then os_remove fwd_filtered_path fs2 else Inr fs2)
     (\<lambda>fs3. and_then (if os_path_isfile fs3 rev_filtered_path
                       then os_remove rev_filtered_path fs3 else Inr fs3)
     (\<lambda>fs4. and_then (if os_path_isfile fs4 species_estimation_path
                       then os_remove species_estimation_path fs4 else Inr fs4)
     (\<lambda>fs5. and_then (if os_path_isfile fs5 assembly_measurer_output_path
                       then os_remove assembly_measurer_output_path fs5 else Inr fs5)
     (\<lambda>fs6. and_then (if os_path_isfile fs6 assembly_measurer_error_path
                       then os_remove assembly_measurer_error_path fs6 else Inr fs6)
     (\<lambda>fs7. and_then (if os_path_isdir fs7 skesa_directory
                       then rmtree skesa_directory fs7 else Inr fs7)
     (\<lambda>fs8. (if os_path_isdir fs8 spades_directory
              then rmtree spades_directory fs8 else Inr fs8))))))))))"

text \<open>
  What one guarded deletion of \<open>cleanup\<close> leaves behind: \<open>if os.path.isfile(p):
  os.remove(p)\<close> and \<open>if os.path.isdir(p): rmtree(p)\<close>.
\<close>

definition remove_if_file :: "path \<Rightarrow> filesystem \<Rightarrow> filesystem" where
  "remove_if_file p fs = (if os_path_isfile fs p then delete_entry p fs else fs)"

definition rmtree_if_dir :: "path \<Rightarrow> filesystem \<Rightarrow> filesystem" where
  "rmtree_if_dir p fs = (if os_path_isdir fs p then delete_tree p fs else fs)"

definition cleanup_result :: "filenames \<Rightarrow> path \<Rightarrow> filesystem \<Rightarrow> filesystem" where
  "cleanup_result N d fs =
     rmtree_if_dir (os_path_join d (SpadesAssembler_DIRECTORY_NAME N))
    (rmtree_if_dir (os_path_join d (SkesaAssembler_DIRECTORY_NAME N))
    (remove_if_file (os_path_join d (AssemblyMeasurer_ERROR_FILENAME N))
    (remove_if_file (os_path_join d (AssemblyMeasurer_OUTPUT_FILENAME N))
    (remove_if_file (os_path_join d (SpeciesEstimator_OUTPUT_FILENAME N))
    (remove_if_file (os_path_join d (ReadFilterer_REV_FILTERED_FILENAME N))
    (remove_if_file (os_path_join d (ReadFilterer_FWD_FILTERED_FILENAME N))
    (remove_if_file (os_path_join d (ReadFilterer_LOGFILE_FILENAME N))
    (rmtree_if_dir (os_path_join d (ContaminationHandler_FASTA_DIRECTORY N)) fs))))))))"

subsection \<open>The values the stages exchange\<close>

text \<open>
  The classes of these values are declared outside \<open>assemble.py\<close>; each record holds the
  attributes the pipeline reads. A species is printed through \<open>str()\<close> and a platform
  through its \<open>value\<close>, both taken as parameters. Read quality, assembly quality, the
  assembly database and the resource specification are passed on unread: they are the type
  parameters \<open>'rq\<close>, \<open>'q\<close>, \<open>'db\<close> and \<open>'rs\<close>.
\<close>

record reads =
  forward :: path
  reverse :: "path option"

datatype platform = UNIDENTIFIABLE | Identified string

record species =
  name :: string

record assembler =
  name :: string
  contigs_filename :: path

record strategy =
  proceed :: bool
  assembler :: assembler
  report :: string

record evaluation =
  success :: bool
  report :: string

datatype 'q assembly_summary = AssemblySummary species 'q path

subsection \<open>The report functions\<close>

definition report_valid_fastq :: "bool \<Rightarrow> string list" where
  "report_valid_fastq valid =
     (let output = (if \<not> valid then ''One or both of the reads are not in FASTQ format.''
                    else ''The reads appear to be formatted correctly.'')
      in [output])"

definition report_platform :: "(platform \<Rightarrow> string) \<Rightarrow> platform \<Rightarrow> string list" where
  "report_platform platform_value platform =
     (let output = ''Sequencing Platform: '' @ platform_value platform in [output])"

text \<open>The slice \<open>xs[i:j]\<close> for indices that are not negative.\<close>

definition slice :: "nat \<Rightarrow> nat \<Rightarrow> 'a list \<Rightarrow> 'a list" where
  "slice i j xs = drop i (take j xs)"

text \<open>
  The loop \<open>for species in ...: print(species)\<close> of \<open>report_species\<close>. Its loop variable
  is the function's variable \<open>species\<close>, so the loop carries that variable along with the
  lines printed so far.
\<close>

fun print_each :: "(species \<Rightarrow> string) \<Rightarrow> species list \<Rightarrow> species \<times> string list
    \<Rightarrow> species \<times> string list" where
  "print_each str [] (species, printed) = (species, printed)"
| "print_each str (x # xs) (species, printed) = print_each str xs (x, printed @ [str x])"

definition additional_species_warning :: string where
  "additional_species_warning =
     ''\<newline>WARNING: Additional high-confidence species were found in the input data:\<newline>''"

definition unknown_species_warning :: string where
  "unknown_species_warning =
     ''\<newline>WARNING: A species could not be determined with high confidence from the input data.''"

definition report_species :: "(species \<Rightarrow> string) \<Rightarrow> species list \<Rightarrow> error + string list" where
  "report_species str species_list =
     (case species_list of
        [] \<Rightarrow> Inl IndexError
      | first # rest \<Rightarrow>
          (let printed = [''SPECIES: '' @ str first];
               (species, printed) =
                 (if length species_list > 1
                  then print_each str (slice 1 (min 5 (length species_list)) species_list)
                         (first, printed @ [additional_species_warning])
                  else (first, printed));
               printed = (if species.name species = ''Unknown''
                          then printed @ [unknown_species_warning] else printed)
           in Inr (printed @ [''''])))"

definition unable_to_proceed :: string where
  "unable_to_proceed = ''The assembly was unable to proceed.\<newline>''"

definition report_strategy :: "strategy \<Rightarrow> string list" where
  "report_strategy strategy =
     [strategy.report strategy] @ (if \<not> proceed strategy then [unable_to_proceed] else [])"

definition report_contamination :: "evaluation \<Rightarrow> string list" where
  "report_contamination evaluation =
     [evaluation.report evaluation] @ (if \<not> success evaluation then [unable_to_proceed] else [])"

subsection \<open>The collaborators of the pipeline\<close>

text \<open>
  The stage executors (validation, platform identification, read filtering, species
  estimation, the expert system, the assemblers, contamination handling, quality
  measurement, the evaluators and the writers) live outside \<open>assemble.py\<close>. Each is a
  parameter: a function of the arguments the pipeline hands over and of the file system it
  finds, returning its result and the file system it leaves. A collaborator that raises
  ends the run where it stands; the pipeline catches nothing, and such runs are not
  followed here.
\<close>

record ('rq, 'q, 'db, 'rs) collaborators =
  species_str :: "species \<Rightarrow> string"
  platform_value :: "platform \<Rightarrow> string"
  are_valid_fastq :: "reads \<Rightarrow> filesystem \<Rightarrow> bool \<times> filesystem"
  identify_name :: "string \<Rightarrow> filesystem \<Rightarrow> platform \<times> filesystem"
  identify :: "reads \<Rightarrow> filesystem \<Rightarrow> platform \<times> filesystem"
  filter_reads :: "reads \<Rightarrow> path \<Rightarrow> filesystem \<Rightarrow> reads \<times> filesystem"
  summarize_quality :: "reads \<Rightarrow> path \<Rightarrow> filesystem \<Rightarrow> 'rq \<times> filesystem"
  AssemblyDatabase :: "path \<Rightarrow> filesystem \<Rightarrow> 'db \<times> filesystem"
  get_file_locations :: "reads \<Rightarrow> path list"
  determine_species :: "path list \<Rightarrow> 'db \<Rightarrow> path \<Rightarrow> path \<Rightarrow> path \<Rightarrow> string option
    \<Rightarrow> filesystem \<Rightarrow> species list \<times> filesystem"
  create_fast_assembly_strategy :: "platform \<Rightarrow> species \<Rightarrow> reads \<Rightarrow> path \<Rightarrow> 'rs \<Rightarrow> 'rq
    \<Rightarrow> filesystem \<Rightarrow> strategy \<times> filesystem"
  assembler_assemble :: "assembler \<Rightarrow> filesystem \<Rightarrow> string \<times> filesystem"
  estimate_contamination :: "species \<Rightarrow> path \<Rightarrow> path \<Rightarrow> path \<Rightarrow> path
    \<Rightarrow> filesystem \<Rightarrow> evaluation \<times> filesystem"
  measure_quality :: "path \<Rightarrow> path \<Rightarrow> filesystem \<Rightarrow> 'q \<times> filesystem"
  ml_evaluate :: "species \<Rightarrow> 'q \<Rightarrow> filesystem \<Rightarrow> evaluation \<times> filesystem"
  create_expert_assembly_strategy :: "platform \<Rightarrow> species \<Rightarrow> reads \<Rightarrow> path \<Rightarrow> 'rs \<Rightarrow> 'q \<Rightarrow> 'db
    \<Rightarrow> filesystem \<Rightarrow> strategy \<times> filesystem"
  heuristic_evaluate :: "species \<Rightarrow> 'db \<Rightarrow> 'q \<Rightarrow> filesystem \<Rightarrow> evaluation \<times> filesystem"
  compare_assemblies :: "'q \<Rightarrow> 'q \<Rightarrow> filesystem \<Rightarrow> string \<times> filesystem"
  write_csv :: "path \<Rightarrow> string list \<Rightarrow> 'q list \<Rightarrow> filesystem \<Rightarrow> unit \<times> filesystem"
  write_json :: "path \<Rightarrow> platform \<Rightarrow> species \<Rightarrow> reads \<Rightarrow> 'rq \<Rightarrow> 'q \<Rightarrow> evaluation
    \<Rightarrow> evaluation \<Rightarrow> 'db \<Rightarrow> filesystem \<Rightarrow> unit \<times> filesystem"
  get_contigs_filename :: "assembler \<Rightarrow> path"

subsection \<open>Runs of the pipeline\<close>

text \<open>
  A run threads the file system, the lines printed so far and a log of the calls made so
  far. The log records each call of a collaborator or of a file-system operation when it
  starts and, with the value that decides a gate or enters the summary, when it returns.
  An exception ends the run and leaves the state as it stood.
\<close>

datatype stage =
    MakeDirectory | ValidateFastq | IdentifyName | IdentifyPlatform | FilterReads
  | SummarizeQuality | OpenDatabase | DetermineSpecies | FastStrategy | FastAssembly
  | Contamination | FastMeasure | FastML | ExpertStrategy | ExpertAssembly | ExpertMeasure
  | ExpertML | Heuristic | Compare | WriteCsv | WriteJson | Rename | Cleanup

datatype 'q returned =
    RBool bool
  | RSpecies "species list"
  | RStrategy strategy
  | REvaluation evaluation
  | RQuality 'q
  | ROther

datatype 'q event = Call stage | Return stage "'q returned"

record 'q state =
  files :: filesystem
  printed :: "string list"
  events :: "'q event list"

type_synonym ('q, 'a) action = "'q state \<Rightarrow> (error + 'a) \<times> 'q state"

definition return_value :: "'a \<Rightarrow> ('q, 'a) action" where
  "return_value x s = (Inr x, s)"

definition raise :: "error \<Rightarrow> ('q, 'a) action" where
  "raise e s = (Inl e, s)"

definition next_do :: "('q, 'a) action \<Rightarrow> ('a \<Rightarrow> ('q, 'b) action) \<Rightarrow> ('q, 'b) action" where
  "next_do m f s = (case m s of (Inl e, s') \<Rightarrow> (Inl e, s') | (Inr x, s') \<Rightarrow> f x s')"

definition print_lines :: "string list \<Rightarrow> ('q, unit) action" where
  "print_lines ls s = (Inr (), s\<lparr>printed := printed s @ ls\<rparr>)"

definition call :: "stage \<Rightarrow> ('a \<Rightarrow> 'q returned) \<Rightarrow> (filesystem \<Rightarrow> 'a \<times> filesystem)
    \<Rightarrow> ('q, 'a) action" where
  "call st shown f s =
     (case f (files s) of
        (x, fs') \<Rightarrow>
          (Inr x, s\<lparr>files := fs', events := events s @ [Call st, Return st (shown x)]\<rparr>))"

definition os_call :: "stage \<Rightarrow> (filesystem \<Rightarrow> error + filesystem) \<Rightarrow> ('q, unit) action" where
  "os_call st f s =
     (case f (files s) of
        Inl e \<Rightarrow> (Inl e, s\<lparr>events := events s @ [Call st]\<rparr>)
      | Inr fs' \<Rightarrow>
          (Inr (), s\<lparr>files := fs', events := events s @ [Call st, Return st ROther]\<rparr>))"

definition first_of :: "'a list \<Rightarrow> ('q, 'a) action" where
  "first_of xs = (case xs of [] \<Rightarrow> raise IndexError | x # _ \<Rightarrow> return_value x)"

definition determine_platform :: "('rq, 'q, 'db, 'rs) collaborators \<Rightarrow> reads \<Rightarrow> string option
    \<Rightarrow> ('q, platform) action" where
  "determine_platform c reads platform_name =
     next_do
       (case platform_name of
          None \<Rightarrow> return_value UNIDENTIFIABLE
        | Some given \<Rightarrow>
            if given = [] then return_value UNIDENTIFIABLE
            else
              next_do (call IdentifyName (\<lambda>_. ROther) (identify_name c given))
              (\<lambda>platform.
              next_do
                (if platform = UNIDENTIFIABLE
                 then print_lines
                   [''\<newline>The platform name '' @ [CHR 0x27] @ given @ [CHR 0x27]
                      @ '' is unrecognized.'',
                    ''Please see the help message for valid platform names.'']
                 else print_lines
                   [''\<newline>The platform name '' @ [CHR 0x27] @ given @ [CHR 0x27]
                      @ '' was recognized.''])
              (\<lambda>_. return_value platform)))
     (\<lambda>platform.
       if platform = UNIDENTIFIABLE
       then
         next_do (print_lines
           [''\<newline>Attempting to identify the sequencing platform from the reads.''])
         (\<lambda>_. call IdentifyPlatform (\<lambda>_. ROther) (identify c reads))
       else return_value platform)"

definition assemble :: "('rq, 'q, 'db, 'rs) collaborators \<Rightarrow> filenames \<Rightarrow> reads \<Rightarrow> path \<Rightarrow> bool
    \<Rightarrow> path \<Rightarrow> path \<Rightarrow> 'rs \<Rightarrow> path \<Rightarrow> string option \<Rightarrow> string option
    \<Rightarrow> ('q, 'q assembly_summary option) action" where
  "assemble c N reads output_directory force database_path mash_database_path
      resource_specification id_mapping_filename species_name platform_name =
   next_do (\<lambda>s. if \<not> os_path_isdir (files s) output_directory
                 then os_call MakeDirectory (os_mkdir output_directory) s
                 else return_value () s)
   (\<lambda>_. next_do (call ValidateFastq RBool (are_valid_fastq c reads))
   (\<lambda>valid_fastq. next_do (print_lines (report_valid_fastq valid_fastq))
   (\<lambda>_. if \<not> valid_fastq \<and> \<not> force then return_value None
   else
   next_do (determine_platform c reads platform_name)
   (\<lambda>platform. next_do (print_lines (report_platform (platform_value c) platform))
   (\<lambda>_. next_do (call FilterReads (\<lambda>_. ROther) (filter_reads c reads output_directory))
   (\<lambda>filtered_reads.
     next_do (call SummarizeQuality (\<lambda>_. ROther) (summarize_quality c reads output_directory))
   (\<lambda>read_quality. next_do (call OpenDatabase (\<lambda>_. ROther) (AssemblyDatabase c database_path))
   (\<lambda>assembly_database.
     next_do (call DetermineSpecies RSpecies
       (determine_species c (get_file_locations c filtered_reads) assembly_database
          output_directory mash_database_path id_mapping_filename species_name))
   (\<lambda>species_list. next_do (first_of species_list)
   (\<lambda>species.
     next_do (case report_species (species_str c) species_list of
                Inl e \<Rightarrow> raise e | Inr ls \<Rightarrow> print_lines ls)
   (\<lambda>_. next_do (call FastStrategy RStrategy
       (create_fast_assembly_strategy c platform species filtered_reads output_directory
          resource_specification read_quality))
   (\<lambda>fast_strategy. next_do (print_lines (report_strategy fast_strategy))
   (\<lambda>_. if \<not> proceed fast_strategy \<and> \<not> force then return_value None
   else
   next_do (call FastAssembly (\<lambda>_. ROther) (assembler_assemble c (assembler fast_strategy)))
   (\<lambda>output. next_do (print_lines [output])
   (\<lambda>_. next_do (call Contamination REvaluation
       (estimate_contamination c species (contigs_filename (assembler fast_strategy))
          output_directory mash_database_path id_mapping_filename))
   (\<lambda>evaluation. next_do (print_lines (report_contamination evaluation))
   (\<lambda>_. if \<not> success evaluation \<and> \<not> force then return_value None
   else
   next_do (call FastMeasure RQuality
       (measure_quality c (contigs_filename (assembler fast_strategy)) output_directory))
   (\<lambda>fast_assembly_quality.
     next_do (call FastML (\<lambda>_. ROther) (ml_evaluate c species fast_assembly_quality))
   (\<lambda>evaluation. next_do (print_lines [evaluation.report evaluation])
   (\<lambda>_. next_do (call ExpertStrategy RStrategy
       (create_expert_assembly_strategy c platform species filtered_reads output_directory
          resource_specification fast_assembly_quality assembly_database))
   (\<lambda>expert_strategy. next_do (print_lines (report_strategy expert_strategy))
   (\<lambda>_. if \<not> proceed expert_strategy \<and> \<not> force then return_value None
   else
   next_do (print_lines [''Performing expert assembly.''])
   (\<lambda>_. next_do
       (call ExpertAssembly (\<lambda>_. ROther) (assembler_assemble c (assembler expert_strategy)))
   (\<lambda>output. next_do (print_lines [output])
   (\<lambda>_. next_do (call ExpertMeasure RQuality
       (measure_quality c (contigs_filename (assembler expert_strategy)) output_directory))
   (\<lambda>expert_assembly_quality.
     next_do (call ExpertML (\<lambda>_. ROther) (ml_evaluate c species expert_assembly_quality))
   (\<lambda>machine_learning_evaluation.
     next_do (print_lines [evaluation.report machine_learning_evaluation])
   (\<lambda>_. next_do (call Heuristic (\<lambda>_. ROther)
       (heuristic_evaluate c species assembly_database expert_assembly_quality))
   (\<lambda>heuristic_evaluation. next_do (print_lines [evaluation.report heuristic_evaluation])
   (\<lambda>_. next_do (call Compare (\<lambda>_. ROther)
       (compare_assemblies c fast_assembly_quality expert_assembly_quality))
   (\<lambda>report. next_do (print_lines [report])
   (\<lambda>_. next_do (call WriteCsv (\<lambda>_. ROther)
       (write_csv c output_directory
          [assembler.name (assembler fast_strategy), assembler.name (assembler expert_strategy)]
          [fast_assembly_quality, expert_assembly_quality]))
   (\<lambda>_. next_do (call WriteJson (\<lambda>_. ROther)
       (write_json c output_directory platform species reads read_quality
          expert_assembly_quality heuristic_evaluation machine_learning_evaluation
          assembly_database))
   (\<lambda>_. next_do (return_value (get_contigs_filename c (assembler expert_strategy)))
   (\<lambda>contigs_filename.
     next_do (return_value (os_path_join output_directory ''contigs.fasta''))
   (\<lambda>contigs_new_filename.
     next_do (os_call Rename (os_rename contigs_filename contigs_new_filename))
   (\<lambda>_. next_do (os_call Cleanup (cleanup N output_directory))
   (\<lambda>_. next_do (print_lines [''Complete.\<newline>''])
   (\<lambda>_. return_value
       (Some (AssemblySummary species expert_assembly_quality contigs_new_filename))
   )))))))))))))))))))))))))))))))))))))))"

subsection \<open>The pipeline from each gate on\<close>

text \<open>
  The rest of \<open>assemble\<close> from the line after each gate, with the local variables that are
  still read as arguments. \<open>assemble\<close> is the chain of these parts
  (\<open>assemble_in_parts\<close> below); they let a run be followed gate by gate.
\<close>

definition finalize :: "('rq, 'q, 'db, 'rs) collaborators \<Rightarrow> filenames \<Rightarrow> path \<Rightarrow> species \<Rightarrow> 'q
    \<Rightarrow> strategy \<Rightarrow> ('q, 'q assembly_summary option) action" where
  "finalize c N output_directory species expert_assembly_quality expert_strategy =
   next_do (return_value (get_contigs_filename c (assembler expert_strategy)))
   (\<lambda>contigs_filename.
     next_do (return_value (os_path_join output_directory ''contigs.fasta''))
   (\<lambda>contigs_new_filename.
     next_do (os_call Rename (os_rename contigs_filename contigs_new_filename))
   (\<lambda>_. next_do (os_call Cleanup (cleanup N output_directory))
   (\<lambda>_. next_do (print_lines [''Complete.\<newline>''])
   (\<lambda>_. return_value
       (Some (AssemblySummary species expert_assembly_quality contigs_new_filename))
   )))))"

definition expert_assembly :: "('rq, 'q, 'db, 'rs) collaborators \<Rightarrow> filenames \<Rightarrow> reads \<Rightarrow> path
    \<Rightarrow> platform \<Rightarrow> species \<Rightarrow> 'rq \<Rightarrow> 'db \<Rightarrow> strategy \<Rightarrow> 'q \<Rightarrow> strategy
    \<Rightarrow> ('q, 'q assembly_summary option) action" where
  "expert_assembly c N reads output_directory platform species read_quality assembly_database
      fast_strategy fast_assembly_quality expert_strategy =
   next_do (print_lines [''Performing expert assembly.''])
   (\<lambda>_. next_do
       (call ExpertAssembly (\<lambda>_. ROther) (assembler_assemble c (assembler expert_strategy)))
   (\<lambda>output. next_do (print_lines [output])
   (\<lambda>_. next_do (call ExpertMeasure RQuality
       (measure_quality c (contigs_filename (assembler expert_strategy)) output_directory))
   (\<lambda>expert_assembly_quality.
     next_do (call ExpertML (\<lambda>_. ROther) (ml_evaluate c species expert_assembly_quality))
   (\<lambda>machine_learning_evaluation.
     next_do (print_lines [evaluation.report machine_learning_evaluation])
   (\<lambda>_. next_do (call Heuristic (\<lambda>_. ROther)
       (heuristic_evaluate c species assembly_database expert_assembly_quality))
   (\<lambda>heuristic_evaluation. next_do (print_lines [evaluation.report heuristic_evaluation])
   (\<lambda>_. next_do (call Compare (\<lambda>_. ROther)
       (compare_assemblies c fast_assembly_quality expert_assembly_quality))
   (\<lambda>report. next_do (print_lines [report])
   (\<lambda>_. next_do (call WriteCsv (\<lambda>_. ROther)
       (write_csv c output_directory
          [assembler.name (assembler fast_strategy), assembler.name (assembler expert_strategy)]
          [fast_assembly_quality, expert_assembly_quality]))
   (\<lambda>_. next_do (call WriteJson (\<lambda>_. ROther)
       (write_json c output_directory platform species reads read_quality
          expert_assembly_quality heuristic_evaluation machine_learning_evaluation
          assembly_database))
   (\<lambda>_. finalize c N output_directory species expert_assembly_quality expert_strategy
   ))))))))))))"

definition evaluate_fast_assembly :: "('rq, 'q, 'db, 'rs) collaborators \<Rightarrow> filenames \<Rightarrow> reads
    \<Rightarrow> path \<Rightarrow> bool \<Rightarrow> 'rs \<Rightarrow> platform \<Rightarrow> reads \<Rightarrow> 'rq \<Rightarrow> 'db \<Rightarrow> species \<Rightarrow> strategy
    \<Rightarrow> ('q, 'q assembly_summary option) action" where
  "evaluate_fast_assembly c N reads output_directory force resource_specification platform
      filtered_reads read_quality assembly_database species fast_strategy =
   next_do (call FastMeasure RQuality
       (measure_quality c (contigs_filename (assembler fast_strategy)) output_directory))
   (\<lambda>fast_assembly_quality.
     next_do (call FastML (\<lambda>_. ROther) (ml_evaluate c species fast_assembly_quality))
   (\<lambda>evaluation. next_do (print_lines [evaluation.report evaluation])
   (\<lambda>_. next_do (call ExpertStrategy RStrategy
       (create_expert_assembly_strategy c platform species filtered_reads output_directory
          resource_specification fast_assembly_quality assembly_database))
   (\<lambda>expert_strategy. next_do (print_lines (report_strategy expert_strategy))
   (\<lambda>_. if \<not> proceed expert_strategy \<and> \<not> force then return_value None
   else
   expert_assembly c N reads output_directory platform species read_quality assembly_database
     fast_strategy fast_assembly_quality expert_strategy
   )))))"

definition fast_assembly :: "('rq, 'q, 'db, 'rs) collaborators \<Rightarrow> filenames \<Rightarrow> reads
    \<Rightarrow> path \<Rightarrow> bool \<Rightarrow> path \<Rightarrow> 'rs \<Rightarrow> path \<Rightarrow> platform \<Rightarrow> reads \<Rightarrow> 'rq \<Rightarrow> 'db \<Rightarrow> species
    \<Rightarrow> strategy \<Rightarrow> ('q, 'q assembly_summary option) action" where
  "fast_assembly c N reads output_directory force mash_database_path resource_specification
      id_mapping_filename platform filtered_reads read_quality assembly_database species
      fast_strategy =
   next_do (call FastAssembly (\<lambda>_. ROther) (assembler_assemble c (assembler fast_strategy)))
   (\<lambda>output. next_do (print_lines [output])
   (\<lambda>_. next_do (call Contamination REvaluation
       (estimate_contamination c species (contigs_filename (assembler fast_strategy))
          output_directory mash_database_path id_mapping_filename))
   (\<lambda>evaluation. next_do (print_lines (report_contamination evaluation))
   (\<lambda>_. if \<not> success evaluation \<and> \<not> force then return_value None
   else
   evaluate_fast_assembly c N reads output_directory force resource_specification platform
     filtered_reads read_quality assembly_database species fast_strategy
   ))))"

definition plan_fast_assembly :: "('rq, 'q, 'db, 'rs) collaborators \<Rightarrow> filenames \<Rightarrow> reads
    \<Rightarrow> path \<Rightarrow> bool \<Rightarrow> path \<Rightarrow> 'rs \<Rightarrow> path \<Rightarrow> platform \<Rightarrow> reads \<Rightarrow> 'rq \<Rightarrow> 'db
    \<Rightarrow> species list \<Rightarrow> ('q, 'q assembly_summary option) action" where
  "plan_fast_assembly c N reads output_directory force mash_database_path
      resource_specification id_mapping_filename platform filtered_reads read_quality
      assembly_database species_list =
   next_do (first_of species_list)
   (\<lambda>species.
     next_do (case report_species (species_str c) species_list of
                Inl e \<Rightarrow> raise e | Inr ls \<Rightarrow> print_lines ls)
   (\<lambda>_. next_do (call FastStrategy RStrategy
       (create_fast_assembly_strategy c platform species filtered_reads output_directory
          resource_specification read_quality))
   (\<lambda>fast_strategy. next_do (print_lines (report_strategy fast_strategy))
   (\<lambda>_. if \<not> proceed fast_strategy \<and> \<not> force then return_value None
   else
   fast_assembly c N reads output_directory force mash_database_path resource_specification
     id_mapping_filename platform filtered_reads read_quality assembly_database species
     fast_strategy
   ))))"

definition estimate_species :: "('rq, 'q, 'db, 'rs) collaborators \<Rightarrow> filenames \<Rightarrow> reads
    \<Rightarrow> path \<Rightarrow> bool \<Rightarrow> path \<Rightarrow> path \<Rightarrow> 'rs \<Rightarrow> path \<Rightarrow> string option \<Rightarrow> string option
    \<Rightarrow> ('q, 'q assembly_summary option) action" where
  "estimate_species c N reads output_directory force database_path mash_database_path
      resource_specification id_mapping_filename species_name platform_name =
   next_do (determine_platform c reads platform_name)
   (\<lambda>platform. next_do (print_lines (report_platform (platform_value c) platform))
   (\<lambda>_. next_do (call FilterReads (\<lambda>_. ROther) (filter_reads c reads output_directory))
   (\<lambda>filtered_reads.
     next_do (call SummarizeQuality (\<lambda>_. ROther) (summarize_quality c reads output_directory))
   (\<lambda>read_quality. next_do (call OpenDatabase (\<lambda>_. ROther) (AssemblyDatabase c database_path))
   (\<lambda>assembly_database.
     next_do (call DetermineSpecies RSpecies
       (determine_species c (get_file_locations c filtered_reads) assembly_database
          output_directory mash_database_path id_mapping_filename species_name))
   (\<lambda>species_list.
   plan_fast_assembly c N reads output_directory force mash_database_path
     resource_specification id_mapping_filename platform filtered_reads read_quality
     assembly_database species_list
   ))))))"

definition assemble_parts :: "('rq, 'q, 'db, 'rs) collaborators \<Rightarrow> filenames \<Rightarrow> reads \<Rightarrow> path
    \<Rightarrow> bool \<Rightarrow> path \<Rightarrow> path \<Rightarrow> 'rs \<Rightarrow> path \<Rightarrow> string option \<Rightarrow> string option
    \<Rightarrow> ('q, 'q assembly_summary option) action" where
  "assemble_parts c N reads output_directory force database_path mash_database_path
      resource_specification id_mapping_filename species_name platform_name =
   next_do (\<lambda>s. if \<not> os_path_isdir (files s) output_directory
                 then os_call MakeDirectory (os_mkdir output_directory) s
                 else return_value () s)
   (\<lambda>_. next_do (call ValidateFastq RBool (are_valid_fastq c reads))
   (\<lambda>valid_fastq. next_do (print_lines (report_valid_fastq valid_fastq))
   (\<lambda>_. if \<not> valid_fastq \<and> \<not> force then return_value None
   else
   estimate_species c N reads output_directory force database_path mash_database_path
     resource_specification id_mapping_filename species_name platform_name
   )))"

subsection \<open>The log of a run, stage by stage\<close>

text \<open>
  What the stages of one run returned, and the log such a run leaves when it gets as far as
  validation, species estimation, the fast strategy, the contamination evaluation, the
  expert strategy, the expert assembly and finalization.
\<close>

record 'q observations =
  directory_created :: bool
  reads_valid :: bool
  name_given :: bool
  platform_inferred :: bool
  candidates :: "species list"
  fast_plan :: strategy
  contamination :: evaluation
  fast_metrics :: 'q
  expert_plan :: strategy
  expert_metrics :: 'q

definition validation_log :: "'q observations \<Rightarrow> 'q event list" where
  "validation_log ob =
     (if directory_created ob then [Call MakeDirectory, Return MakeDirectory ROther] else [])
     @ [Call ValidateFastq, Return ValidateFastq (RBool (reads_valid ob))]"

definition platform_log :: "bool \<Rightarrow> bool \<Rightarrow> 'q event list" where
  "platform_log named inferred =
     (if named then [Call IdentifyName, Return IdentifyName ROther] else [])
     @ (if inferred then [Call IdentifyPlatform, Return IdentifyPlatform ROther] else [])"

definition species_log :: "'q observations \<Rightarrow> 'q event list" where
  "species_log ob = validation_log ob
     @ platform_log (name_given ob) (platform_inferred ob)
     @ [Call FilterReads, Return FilterReads ROther,
        Call SummarizeQuality, Return SummarizeQuality ROther,
        Call OpenDatabase, Return OpenDatabase ROther,
        Call DetermineSpecies, Return DetermineSpecies (RSpecies (candidates ob))]"

definition fast_strategy_log :: "'q observations \<Rightarrow> 'q event list" where
  "fast_strategy_log ob = species_log ob
     @ [Call FastStrategy, Return FastStrategy (RStrategy (fast_plan ob))]"

definition contamination_log :: "'q observations \<Rightarrow> 'q event list" where
  "contamination_log ob = fast_strategy_log ob
     @ [Call FastAssembly, Return FastAssembly ROther,
        Call Contamination, Return Contamination (REvaluation (contamination ob))]"

definition expert_strategy_log :: "'q observations \<Rightarrow> 'q event list" where
  "expert_strategy_log ob = contamination_log ob
     @ [Call FastMeasure, Return FastMeasure (RQuality (fast_metrics ob)),
        Call FastML, Return FastML ROther,
        Call ExpertStrategy, Return ExpertStrategy (RStrategy (expert_plan ob))]"

definition expert_assembly_log :: "'q observations \<Rightarrow> 'q event list" where
  "expert_assembly_log ob = expert_strategy_log ob
     @ [Call ExpertAssembly, Return ExpertAssembly ROther,
        Call ExpertMeasure, Return ExpertMeasure (RQuality (expert_metrics ob)),
        Call ExpertML, Return ExpertML ROther,
        Call Heuristic, Return Heuristic ROther,
        Call Compare, Return Compare ROther,
        Call WriteCsv, Return WriteCsv ROther,
        Call WriteJson, Return WriteJson ROther]"

definition complete_log :: "'q observations \<Rightarrow> 'q event list" where
  "complete_log ob = expert_assembly_log ob
     @ [Call Rename, Return Rename ROther, Call Cleanup, Return Cleanup ROther]"

subsection \<open>Reading a log\<close>

text \<open>The stages called in a log, in order.\<close>

fun called :: "'q event list \<Rightarrow> stage list" where
  "called [] = []"
| "called (Call st # es) = st # called es"
| "called (Return st v # es) = called es"

text \<open>
  In a log, no call of stage \<open>b\<close> comes before the first return of stage \<open>a\<close>.
\<close>

fun completes_first :: "stage \<Rightarrow> stage \<Rightarrow> 'q event list \<Rightarrow> bool" where
  "completes_first a b [] = True"
| "completes_first a b (Return st v # es) = (st = a \<or> completes_first a b es)"
| "completes_first a b (Call st # es) = (st \<noteq> b \<and> completes_first a b es)"



subsection \<open>A concrete setting\<close>

text \<open>
  File names as the comments of \<open>cleanup\<close> give them, and collaborators whose gate values
  are chosen by four flags: they leave the files a real run would leave and return fixed
  reports.
\<close>

definition demo_names :: filenames where
  "demo_names =
    \<lparr>ContaminationHandler_FASTA_DIRECTORY = ''fasta'',
     ReadFilterer_LOGFILE_FILENAME = ''fastp.log'',
     ReadFilterer_FWD_FILTERED_FILENAME = ''fwd_filtered.fastq'',
     ReadFilterer_REV_FILTERED_FILENAME = ''rev_filtered.fastq'',
     SpeciesEstimator_OUTPUT_FILENAME = ''mash.o'',
     AssemblyMeasurer_OUTPUT_FILENAME = ''quast.out'',
     AssemblyMeasurer_ERROR_FILENAME = ''quast.err'',
     SkesaAssembler_DIRECTORY_NAME = ''skesa'',
     SpadesAssembler_DIRECTORY_NAME = ''spades''\<rparr>"

definition demo :: "bool \<Rightarrow> bool \<Rightarrow> bool \<Rightarrow> bool \<Rightarrow> species list
    \<Rightarrow> (nat, nat, unit, unit) collaborators" where
  "demo valid fast_ok clean expert_ok sl =
    \<lparr>species_str = species.name,
     platform_value = (\<lambda>p. case p of UNIDENTIFIABLE \<Rightarrow> ''Unidentifiable'' | Identified n \<Rightarrow> n),
     are_valid_fastq = (\<lambda>reads fs. (valid, fs)),
     identify_name = (\<lambda>n fs. (if n = ''Illumina'' then Identified n else UNIDENTIFIABLE, fs)),
     identify = (\<lambda>reads fs. (Identified ''Illumina'', fs)),
     filter_reads = (\<lambda>reads d fs.
       (\<lparr>forward = os_path_join d ''fwd_filtered.fastq'', reverse = None\<rparr>,
        (os_path_join d ''fwd_filtered.fastq'', File) # fs)),
     summarize_quality = (\<lambda>reads d fs. (30, fs)),
     AssemblyDatabase = (\<lambda>p fs. ((), fs)),
     get_file_locations = (\<lambda>reads. [forward reads]),
     determine_species = (\<lambda>locations db d mash idm hint fs.
       (sl, (os_path_join d ''mash.o'', File) # fs)),
     create_fast_assembly_strategy = (\<lambda>platform sp reads d rs rq fs.
       (\<lparr>proceed = fast_ok,
         assembler = \<lparr>assembler.name = ''skesa'',
                      contigs_filename = os_path_join d ''skesa/contigs.fasta''\<rparr>,
         strategy.report = ''Fast strategy.''\<rparr>, fs)),
     assembler_assemble = (\<lambda>a fs.
       (''Assembled.'',
        (contigs_filename a, File) # (os_path_dirname (contigs_filename a), Dir) # fs)),
     estimate_contamination = (\<lambda>sp contigs d mash idm fs.
       (\<lparr>success = clean, evaluation.report = ''Contamination report.''\<rparr>, fs)),
     measure_quality = (\<lambda>contigs d fs. (length contigs, fs)),
     ml_evaluate = (\<lambda>sp q fs. (\<lparr>success = True, evaluation.report = ''Model report.''\<rparr>, fs)),
     create_expert_assembly_strategy = (\<lambda>platform sp reads d rs q db fs.
       (\<lparr>proceed = expert_ok,
         assembler = \<lparr>assembler.name = ''spades'',
                      contigs_filename = os_path_join d ''spades/contigs.fasta''\<rparr>,
         strategy.report = ''Expert strategy.''\<rparr>, fs)),
     heuristic_evaluate = (\<lambda>sp db q fs.
       (\<lparr>success = True, evaluation.report = ''Heuristic report.''\<rparr>, fs)),
     compare_assemblies = (\<lambda>q1 q2 fs. (''Comparison.'', fs)),
     write_csv = (\<lambda>d names qs fs. ((), (os_path_join d ''assembly_statistics.csv'', File) # fs)),
     write_json = (\<lambda>d platform sp reads rq q h m db fs.
       ((), (os_path_join d ''assembly_info.json'', File) # fs)),
     get_contigs_filename = contigs_filename\<rparr>"

definition unknown_only :: "species list" where
  "unknown_only = [\<lparr>species.name = ''Unknown''\<rparr>]"

definition unknown_then_coli :: "species list" where
  "unknown_then_coli =
     [\<lparr>species.name = ''Unknown''\<rparr>, \<lparr>species.name = ''Escherichia coli''\<rparr>]"

definition demo_start :: "nat state" where
  "demo_start = \<lparr>files = [(''reads.fastq'', File)], printed = [], events = []\<rparr>"

definition demo_run :: "bool \<Rightarrow> bool \<Rightarrow> bool \<Rightarrow> bool \<Rightarrow> species list \<Rightarrow> bool
    \<Rightarrow> (error + nat assembly_summary option) \<times> nat state" where
  "demo_run valid fast_ok clean expert_ok sl force =
     assemble (demo valid fast_ok clean expert_ok sl) demo_names
       \<lparr>forward = ''reads.fastq'', reverse = None\<rparr> ''out'' force ''db'' ''mash'' ()
       ''idmap'' None None demo_start"

definition cluttered :: filesystem where
  "cluttered =
     [(''out'', Dir), (''out/fasta'', Dir), (''out/fasta/a.fasta'', File),
      (''out/fastp.log'', File), (''out/contigs.fasta'', File), (''out/skesa'', Dir),
      (''out/skesa/contigs.fasta'', File), (''out/quast.out'', Dir)]"

section \<open>Properties of the model\<close>

subsection \<open>Cleanup only deletes\<close>

text \<open>
  A guarded deletion removes entries and changes no other entry, so a path that is not a
  file (not a directory) stays so through the rest of \<open>cleanup\<close>, and after \<open>cleanup\<close>
  every guard is false.
\<close>

lemma lookup_delete_entry: "lookup (delete_entry p fs) q = (if q = p then None else lookup fs q)"
  unfolding lookup_def delete_entry_def
  by (induction fs) auto

lemma lookup_delete_tree:
  "lookup (delete_tree d fs) q = (if q = d \<or> below d q then None else lookup fs q)"
  unfolding lookup_def delete_tree_def
  by (induction fs) auto

lemma remove_if_file_lookup:
  "lookup (remove_if_file p fs) q = None \<or> lookup (remove_if_file p fs) q = lookup fs q"
  by (simp add: remove_if_file_def lookup_delete_entry)

lemma rmtree_if_dir_lookup:
  "lookup (rmtree_if_dir p fs) q = None \<or> lookup (rmtree_if_dir p fs) q = lookup fs q"
  by (simp add: rmtree_if_dir_def lookup_delete_tree)

lemma remove_if_file_gone: "\<not> os_path_isfile (remove_if_file p fs) p"
  by (simp add: remove_if_file_def os_path_isfile_def lookup_delete_entry)

lemma rmtree_if_dir_gone: "\<not> os_path_isdir (rmtree_if_dir p fs) p"
  by (simp add: rmtree_if_dir_def os_path_isdir_def lookup_delete_tree)

lemma remove_if_file_keeps_nofile:
  "\<not> os_path_isfile fs q \<Longrightarrow> \<not> os_path_isfile (remove_if_file p fs) q"
  using remove_if_file_lookup [of p fs q] by (auto simp: os_path_isfile_def)

lemma remove_if_file_keeps_nodir:
  "\<not> os_path_isdir fs q \<Longrightarrow> \<not> os_path_isdir (remove_if_file p fs) q"
  using remove_if_file_lookup [of p fs q] by (auto simp: os_path_isdir_def)

lemma rmtree_if_dir_keeps_nofile:
  "\<not> os_path_isfile fs q \<Longrightarrow> \<not> os_path_isfile (rmtree_if_dir p fs) q"
  using rmtree_if_dir_lookup [of p fs q] by (auto simp: os_path_isfile_def)

lemma rmtree_if_dir_keeps_nodir:
  "\<not> os_path_isdir fs q \<Longrightarrow> \<not> os_path_isdir (rmtree_if_dir p fs) q"
  using rmtree_if_dir_lookup [of p fs q] by (auto simp: os_path_isdir_def)

lemmas cleanup_keeps = remove_if_file_keeps_nofile remove_if_file_keeps_nodir
  rmtree_if_dir_keeps_nofile rmtree_if_dir_keeps_nodir remove_if_file_gone rmtree_if_dir_gone

lemma remove_if_file_skip: "\<not> os_path_isfile fs p \<Longrightarrow> remove_if_file p fs = fs"
  by (simp add: remove_if_file_def)

lemma rmtree_if_dir_skip: "\<not> os_path_isdir fs p \<Longrightarrow> rmtree_if_dir p fs = fs"
  by (simp add: rmtree_if_dir_def)

lemma cleanup_result_fixed: "cleanup_result N d (cleanup_result N d fs) = cleanup_result N d fs"
proof -
  define fs' where "fs' = cleanup_result N d fs"
  have d1: "\<not> os_path_isdir fs' (os_path_join d (ContaminationHandler_FASTA_DIRECTORY N))"
    unfolding fs'_def cleanup_result_def by (intro cleanup_keeps)
  have f2: "\<not> os_path_isfile fs' (os_path_join d (ReadFilterer_LOGFILE_FILENAME N))"
    unfolding fs'_def cleanup_result_def by (intro cleanup_keeps)
  have f3: "\<not> os_path_isfile fs' (os_path_join d (ReadFilterer_FWD_FILTERED_FILENAME N))"
    unfolding fs'_def cleanup_result_def by (intro cleanup_keeps)
  have f4: "\<not> os_path_isfile fs' (os_path_join d (ReadFilterer_REV_FILTERED_FILENAME N))"
    unfolding fs'_def cleanup_result_def by (intro cleanup_keeps)
  have f5: "\<not> os_path_isfile fs' (os_path_join d (SpeciesEstimator_OUTPUT_FILENAME N))"
    unfolding fs'_def cleanup_result_def by (intro cleanup_keeps)
  have f6: "\<not> os_path_isfile fs' (os_path_join d (AssemblyMeasurer_OUTPUT_FILENAME N))"
    unfolding fs'_def cleanup_result_def by (intro cleanup_keeps)
  have f7: "\<not> os_path_isfile fs' (os_path_join d (AssemblyMeasurer_ERROR_FILENAME N))"
    unfolding fs'_def cleanup_result_def by (intro cleanup_keeps)
  have d8: "\<not> os_path_isdir fs' (os_path_join d (SkesaAssembler_DIRECTORY_NAME N))"
    unfolding fs'_def cleanup_result_def by (intro cleanup_keeps)
  have d9: "\<not> os_path_isdir fs' (os_path_join d (SpadesAssembler_DIRECTORY_NAME N))"
    unfolding fs'_def cleanup_result_def by (intro cleanup_keeps)
  have "cleanup_result N d fs' = fs'"
    unfolding cleanup_result_def [of N d fs']
    by (simp only: remove_if_file_skip rmtree_if_dir_skip d1 f2 f3 f4 f5 f6 f7 d8 d9 not_False_eq_True)
  then show ?thesis by (simp add: fs'_def)
qed

subsection \<open>Following a run part by part\<close>

text \<open>
  Each part of the pipeline, started in any state, either ends the run at its gate or hands
  over to the next part, having appended its calls to the log and its lines to the output.
\<close>

lemma assemble_in_parts: "assemble = assemble_parts"
  unfolding assemble_def assemble_parts_def estimate_species_def plan_fast_assembly_def
    fast_assembly_def evaluate_fast_assembly_def expert_assembly_def finalize_def
  by (rule refl)

lemma next_do_return_value: "next_do (return_value x) g s = g x s"
  by (simp add: next_do_def return_value_def)

lemma next_do_raise: "next_do (raise e) g s = (Inl e, s)"
  by (simp add: next_do_def raise_def)

lemma next_do_print_lines: "next_do (print_lines ls) g s = g () (s\<lparr>printed := printed s @ ls\<rparr>)"
  by (simp add: next_do_def print_lines_def)

lemma next_do_call:
  "next_do (call st shown f) g s =
     g (fst (f (files s)))
       (s\<lparr>files := snd (f (files s)),
          events := events s @ [Call st, Return st (shown (fst (f (files s))))]\<rparr>)"
  by (simp add: next_do_def call_def split: prod.split)

lemma next_do_os_call:
  "next_do (os_call st f) g s =
     (case f (files s) of
        Inl e \<Rightarrow> (Inl e, s\<lparr>events := events s @ [Call st]\<rparr>)
      | Inr fs' \<Rightarrow> g () (s\<lparr>files := fs', events := events s @ [Call st, Return st ROther]\<rparr>))"
  by (simp add: next_do_def os_call_def split: sum.split)

lemma next_do_returned: "m s = (Inr x, s1) \<Longrightarrow> next_do m g s = g x s1"
  by (simp add: next_do_def)

lemmas run_simps = next_do_return_value next_do_raise next_do_print_lines next_do_call
  next_do_os_call

lemma ex_middle: "\<exists>L. a # ys = L @ ys"
  by (rule exI [where x = "[a]"]) simp

lemma and_then_Inr: "and_then (Inr x) f = f x"
  by (simp add: and_then_def)

lemma guarded_remove:
  "(if os_path_isfile fs p then os_remove p fs else Inr fs) = Inr (remove_if_file p fs)"
  by (simp add: remove_if_file_def os_remove_def os_path_isfile_def)

lemma guarded_rmtree:
  "(if os_path_isdir fs p then rmtree p fs else Inr fs) = Inr (rmtree_if_dir p fs)"
  by (simp add: rmtree_if_dir_def rmtree_def os_path_isdir_def)

lemma cleanup_never_raises: "cleanup N d fs = Inr (cleanup_result N d fs)"
  unfolding cleanup_def cleanup_result_def Let_def
  by (simp only: guarded_remove guarded_rmtree and_then_Inr)

lemma finalize_run:
  assumes "finalize c N od sp q ex s = (r, s')"
  shows "(\<exists>e. r = Inl e \<and> events s' = events s @ [Call Rename] \<and> printed s' = printed s)
       \<or> (\<exists>fs1. os_rename (get_contigs_filename c (assembler ex))
                   (os_path_join od ''contigs.fasta'') (files s) = Inr fs1
            \<and> r = Inr (Some (AssemblySummary sp q (os_path_join od ''contigs.fasta'')))
            \<and> events s' = events s
                 @ [Call Rename, Return Rename ROther, Call Cleanup, Return Cleanup ROther]
            \<and> printed s' = printed s @ [''Complete.\<newline>'']
            \<and> files s' = cleanup_result N od fs1)"
  using assms unfolding finalize_def
  by (auto simp: run_simps cleanup_never_raises return_value_def split: sum.splits)

lemma expert_assembly_run:
  assumes "expert_assembly c N reads od platform sp rq db fast q1 ex s = (r, s')"
  shows "\<exists>q2 s1. finalize c N od sp q2 ex s1 = (r, s')
           \<and> events s1 = events s
               @ [Call ExpertAssembly, Return ExpertAssembly ROther,
                  Call ExpertMeasure, Return ExpertMeasure (RQuality q2),
                  Call ExpertML, Return ExpertML ROther,
                  Call Heuristic, Return Heuristic ROther,
                  Call Compare, Return Compare ROther,
                  Call WriteCsv, Return WriteCsv ROther,
                  Call WriteJson, Return WriteJson ROther]
           \<and> (\<exists>L. printed s1 = printed s @ L)"
  using assms unfolding expert_assembly_def
  apply (simp add: run_simps)
  apply (rule exI, rule exI, intro conjI)
    apply assumption
   apply simp_all
  done

lemma evaluate_fast_assembly_run:
  assumes "evaluate_fast_assembly c N reads od force rs platform fr rq db sp fast s = (r, s')"
  shows "\<exists>q1 ex s1.
           (if \<not> proceed ex \<and> \<not> force then return_value None
            else expert_assembly c N reads od platform sp rq db fast q1 ex) s1 = (r, s')
           \<and> events s1 = events s
               @ [Call FastMeasure, Return FastMeasure (RQuality q1),
                  Call FastML, Return FastML ROther,
                  Call ExpertStrategy, Return ExpertStrategy (RStrategy ex)]
           \<and> (\<exists>L. printed s1 = printed s @ L @ report_strategy ex)
           \<and> (\<exists>fsx. ex = fst (create_expert_assembly_strategy c platform sp fr od rs q1 db fsx))"
  using assms unfolding evaluate_fast_assembly_def
  apply (simp add: run_simps split del: if_split cong del: if_weak_cong)
  apply (rule exI, rule exI, rule exI, intro conjI)
     apply assumption
    apply simp
   apply (simp add: ex_middle)
  apply (rule exI, rule refl)
  done

lemma fast_assembly_run:
  assumes "fast_assembly c N reads od force mash rs idm platform fr rq db sp fast s = (r, s')"
  shows "\<exists>ev s1.
           (if \<not> success ev \<and> \<not> force then return_value None
            else evaluate_fast_assembly c N reads od force rs platform fr rq db sp fast) s1
             = (r, s')
           \<and> events s1 = events s
               @ [Call FastAssembly, Return FastAssembly ROther,
                  Call Contamination, Return Contamination (REvaluation ev)]
           \<and> (\<exists>L. printed s1 = printed s @ L @ report_contamination ev)"
  using assms unfolding fast_assembly_def
  apply (simp add: run_simps split del: if_split cong del: if_weak_cong)
  apply (rule exI, rule exI, intro conjI)
    apply assumption
   apply simp
  apply (simp add: ex_middle)
  done

lemma report_species_returns: "sl \<noteq> [] \<Longrightarrow> \<exists>ls. report_species str sl = Inr ls"
  by (cases sl) (simp_all add: report_species_def Let_def split: prod.split)

lemma plan_fast_assembly_empty:
  "plan_fast_assembly c N reads od force mash rs idm platform fr rq db [] s = (Inl IndexError, s)"
  unfolding plan_fast_assembly_def by (simp add: first_of_def run_simps)

lemma plan_fast_assembly_run:
  assumes "plan_fast_assembly c N reads od force mash rs idm platform fr rq db sl s = (r, s')"
    and "sl \<noteq> []"
  shows "\<exists>fast s1.
           (if \<not> proceed fast \<and> \<not> force then return_value None
            else fast_assembly c N reads od force mash rs idm platform fr rq db (hd sl) fast) s1
             = (r, s')
           \<and> events s1 = events s @ [Call FastStrategy, Return FastStrategy (RStrategy fast)]
           \<and> (\<exists>L. printed s1 = printed s @ L @ report_strategy fast)"
proof -
  obtain sp rest where sl: "sl = sp # rest" using assms(2) by (cases sl) auto
  obtain ls where ls: "report_species (species_str c) (sp # rest) = Inr ls"
    using report_species_returns [of "sp # rest"] by blast
  show ?thesis
    using assms(1) unfolding plan_fast_assembly_def sl
    apply (simp add: run_simps ls first_of_def split del: if_split cong del: if_weak_cong)
    apply (rule exI, rule exI, intro conjI)
      apply assumption
     apply simp
    apply simp
    done
qed

lemma next_do_assoc: "next_do (next_do m f) g = next_do m (\<lambda>x. next_do (f x) g)"
  by (rule ext) (simp add: next_do_def split: prod.split sum.split)

lemma platform_log_cases:
  "\<exists>named inferred. [Call IdentifyPlatform, Return IdentifyPlatform ROther]
      = platform_log named inferred"
  "\<exists>named inferred. [Call IdentifyName, Return IdentifyName ROther]
      = platform_log named inferred"
  "\<exists>named inferred. [Call IdentifyName, Return IdentifyName ROther,
      Call IdentifyPlatform, Return IdentifyPlatform ROther] = platform_log named inferred"
  by (rule exI [where x = False], rule exI [where x = True], simp add: platform_log_def)
    (rule exI [where x = True], rule exI [where x = False], simp add: platform_log_def,
     rule exI [where x = True], rule exI [where x = True], simp add: platform_log_def)

lemma determine_platform_run:
  "\<exists>p s1 named inferred. determine_platform c reads pn s = (Inr p, s1)
      \<and> events s1 = events s @ platform_log named inferred
      \<and> (\<exists>L. printed s1 = printed s @ L)"
proof (cases "pn = None \<or> pn = Some []")
  case True
  then show ?thesis
    unfolding determine_platform_def
    by (auto simp: run_simps call_def platform_log_cases split: prod.split)
next
  case False
  then obtain given where pn: "pn = Some given" "given \<noteq> []" by (cases pn) auto
  show ?thesis
  proof (cases "fst (identify_name c given (files s)) = UNIDENTIFIABLE")
    case True
    then show ?thesis
      unfolding determine_platform_def pn
      by (simp add: run_simps next_do_assoc pn call_def platform_log_cases split: prod.split)
  next
    case False
    then show ?thesis
      unfolding determine_platform_def pn
      by (simp add: run_simps next_do_assoc pn return_value_def platform_log_cases)
  qed
qed

lemma estimate_species_run:
  assumes "estimate_species c N reads od force dbp mash rs idm sn pn s = (r, s')"
  shows "\<exists>platform fr rq db sl s1.
           plan_fast_assembly c N reads od force mash rs idm platform fr rq db sl s1 = (r, s')
           \<and> (\<exists>named inferred. events s1 = events s @ platform_log named inferred
               @ [Call FilterReads, Return FilterReads ROther,
                  Call SummarizeQuality, Return SummarizeQuality ROther,
                  Call OpenDatabase, Return OpenDatabase ROther,
                  Call DetermineSpecies, Return DetermineSpecies (RSpecies sl)])
           \<and> (\<exists>L. printed s1 = printed s @ L)"
proof -
  obtain p s0 named inferred L where dp: "determine_platform c reads pn s = (Inr p, s0)"
    and ev: "events s0 = events s @ platform_log named inferred"
    and pr: "printed s0 = printed s @ L"
    using determine_platform_run [of c reads pn s] by blast
  show ?thesis
    using assms unfolding estimate_species_def
      next_do_returned [of "determine_platform c reads pn" s p s0, OF dp]
    apply (simp add: run_simps split del: if_split cong del: if_weak_cong)
    apply (rule exI, rule exI, rule exI, rule exI, rule exI, rule exI, intro conjI)
      apply assumption
     apply (auto simp: ev)[1]
    apply (simp add: pr)
    done
qed

lemma next_do_skip:
  "os_path_isdir (files s) d \<Longrightarrow>
   next_do (\<lambda>s. if \<not> os_path_isdir (files s) d then os_call st (os_mkdir d) s
                 else return_value () s) g s = g () s"
  by (simp add: next_do_def return_value_def)

lemma next_do_made:
  "\<not> os_path_isdir (files s) d \<Longrightarrow> os_mkdir d (files s) = Inr fs1 \<Longrightarrow>
   next_do (\<lambda>s. if \<not> os_path_isdir (files s) d then os_call st (os_mkdir d) s
                 else return_value () s) g s
     = g () (s\<lparr>files := fs1, events := events s @ [Call st, Return st ROther]\<rparr>)"
  by (simp add: next_do_def os_call_def)

lemma next_do_unmade:
  "\<not> os_path_isdir (files s) d \<Longrightarrow> os_mkdir d (files s) = Inl e \<Longrightarrow>
   next_do (\<lambda>s. if \<not> os_path_isdir (files s) d then os_call st (os_mkdir d) s
                 else return_value () s) g s
     = (Inl e, s\<lparr>events := events s @ [Call st]\<rparr>)"
  by (simp add: next_do_def os_call_def)

lemma assemble_parts_run:
  assumes "assemble_parts c N reads od force dbp mash rs idm sn pn s = (r, s')"
  shows "(\<exists>e. r = Inl e \<and> events s' = events s @ [Call MakeDirectory] \<and> printed s' = printed s)
       \<or> (\<exists>created valid s1.
            (if \<not> valid \<and> \<not> force then return_value None
             else estimate_species c N reads od force dbp mash rs idm sn pn) s1 = (r, s')
            \<and> events s1 = events s
                @ (if created then [Call MakeDirectory, Return MakeDirectory ROther] else [])
                @ [Call ValidateFastq, Return ValidateFastq (RBool valid)]
            \<and> printed s1 = printed s @ report_valid_fastq valid)"
proof (cases "os_path_isdir (files s) od")
  case True
  show ?thesis
    using assms unfolding assemble_parts_def next_do_skip [OF True]
    apply (simp add: run_simps split del: if_split cong del: if_weak_cong)
    apply (rule disjI2)
    apply (rule exI [where x = False], rule exI, rule exI, intro conjI)
      apply assumption
     apply simp
    apply simp
    done
next
  case False
  show ?thesis
  proof (cases "os_mkdir od (files s)")
    case (Inl e)
    then show ?thesis
      using assms unfolding assemble_parts_def next_do_unmade [OF False Inl]
      apply -
      apply (rule disjI1)
      apply auto
      done
  next
    case (Inr fs1)
    then show ?thesis
      using assms unfolding assemble_parts_def next_do_made [OF False Inr]
      apply (simp add: run_simps split del: if_split cong del: if_weak_cong)
      apply (rule disjI2)
      apply (rule exI [where x = True], rule exI, rule exI, intro conjI)
        apply assumption
       apply simp
      apply simp
      done
  qed
qed


lemmas log_defs = validation_log_def platform_log_def species_log_def fast_strategy_log_def
  contamination_log_def expert_strategy_log_def expert_assembly_log_def complete_log_def

lemma halted: "return_value None s1 = (r, s') \<Longrightarrow> r = Inr None \<and> s' = s1"
  by (auto simp: return_value_def)

text \<open>
  The eight ways a run of \<open>assemble\<close> from an empty log can end: \<open>os.mkdir\<close> raises;
  the reads are invalid; the species list is empty and \<open>species_list[0]\<close> raises; the fast
  strategy is rejected; the assembly is contaminated; the expert strategy is rejected;
  \<open>os.rename\<close> raises; the run completes. The four halts need the force flag to be
  false.
\<close>

lemma assemble_cases [consumes 1, case_names mkdir_failed invalid_reads no_species
    fast_rejected contaminated expert_rejected rename_failed complete]:
  fixes c :: "('rq, 'q, 'db, 'rs) collaborators"
  assumes run: "assemble c N reads od force dbp mash rs idm sn pn
      \<lparr>files = fs, printed = [], events = []\<rparr> = (r, s')"
  obtains e where "r = Inl e" "events s' = [Call MakeDirectory]" "printed s' = []"
  | ob where "\<not> reads_valid ob" "\<not> force" "r = Inr None" "events s' = validation_log ob"
      "printed s' = report_valid_fastq False"
  | ob where "reads_valid ob \<or> force" "candidates ob = []" "r = Inl IndexError"
      "events s' = species_log ob"
  | ob L where "reads_valid ob \<or> force" "candidates ob \<noteq> []"
      "\<not> proceed (fast_plan ob)" "\<not> force" "r = Inr None"
      "events s' = fast_strategy_log ob" "printed s' = L @ report_strategy (fast_plan ob)"
  | ob L where "reads_valid ob \<or> force" "candidates ob \<noteq> []"
      "proceed (fast_plan ob) \<or> force"
      "\<not> success (contamination ob)" "\<not> force" "r = Inr None"
      "events s' = contamination_log ob"
      "printed s' = L @ report_contamination (contamination ob)"
  | ob L platform fr db fsx where "reads_valid ob \<or> force" "candidates ob \<noteq> []"
      "proceed (fast_plan ob) \<or> force" "success (contamination ob) \<or> force"
      "expert_plan ob = fst (create_expert_assembly_strategy c platform (hd (candidates ob)) fr
         od rs (fast_metrics ob) db fsx)"
      "\<not> proceed (expert_plan ob)" "\<not> force" "r = Inr None"
      "events s' = expert_strategy_log ob"
      "printed s' = L @ report_strategy (expert_plan ob)"
  | ob e platform fr db fsx where "reads_valid ob \<or> force" "candidates ob \<noteq> []"
      "proceed (fast_plan ob) \<or> force" "success (contamination ob) \<or> force"
      "expert_plan ob = fst (create_expert_assembly_strategy c platform (hd (candidates ob)) fr
         od rs (fast_metrics ob) db fsx)"
      "proceed (expert_plan ob) \<or> force" "r = Inl e"
      "events s' = expert_assembly_log ob @ [Call Rename]"
  | ob L fs1 fs2 platform fr db fsx where "reads_valid ob \<or> force" "candidates ob \<noteq> []"
      "proceed (fast_plan ob) \<or> force" "success (contamination ob) \<or> force"
      "expert_plan ob = fst (create_expert_assembly_strategy c platform (hd (candidates ob)) fr
         od rs (fast_metrics ob) db fsx)"
      "proceed (expert_plan ob) \<or> force"
      "r = Inr (Some (AssemblySummary (hd (candidates ob)) (expert_metrics ob)
         (os_path_join od ''contigs.fasta'')))"
      "events s' = complete_log ob" "printed s' = L @ [''Complete.\<newline>'']"
      "os_rename (get_contigs_filename c (assembler (expert_plan ob)))
         (os_path_join od ''contigs.fasta'') fs1 = Inr fs2"
      "files s' = cleanup_result N od fs2"
proof -
  let ?s0 = "\<lparr>files = fs, printed = [], events = []\<rparr> :: 'q state"
  let ?ob = "\<lambda>created valid named inferred sl fast ev q1 ex q2.
    \<lparr>directory_created = created, reads_valid = valid, name_given = named,
     platform_inferred = inferred, candidates = sl, fast_plan = fast, contamination = ev,
     fast_metrics = q1, expert_plan = ex, expert_metrics = q2\<rparr>"
  from run have parts: "assemble_parts c N reads od force dbp mash rs idm sn pn ?s0 = (r, s')"
    by (simp add: assemble_in_parts)
  from assemble_parts_run [OF parts]
  consider e where "r = Inl e" "events s' = [Call MakeDirectory]" "printed s' = []"
    | created valid s1 where
      "(if \<not> valid \<and> \<not> force then return_value None
        else estimate_species c N reads od force dbp mash rs idm sn pn) s1 = (r, s')"
      "events s1 = (if created then [Call MakeDirectory, Return MakeDirectory ROther] else [])
         @ [Call ValidateFastq, Return ValidateFastq (RBool valid)]"
      "printed s1 = report_valid_fastq valid"
    by (elim disjE exE conjE) (simp_all split del: if_split)
  then show thesis
  proof cases
    case 1
    then show thesis by (rule that(1))
  next
    case (2 created valid s1)
    note g1 = 2(1) and e1 = 2(2) and p1 = 2(3)
    show thesis
    proof (cases "\<not> valid \<and> \<not> force")
      case True
      with g1 have "r = Inr None" "s' = s1" by (auto dest: halted)
      with True e1 p1 show thesis
        by (intro that(2) [of "?ob created valid undefined undefined undefined undefined
          undefined undefined undefined undefined"]) (simp_all add: log_defs)
    next
      case pass1: False
      with g1 have run2: "estimate_species c N reads od force dbp mash rs idm sn pn s1 = (r, s')"
        by simp
      from estimate_species_run [OF run2] obtain platform fr rq db sl s2 named inferred L2
        where run3: "plan_fast_assembly c N reads od force mash rs idm platform fr rq db sl s2
            = (r, s')"
          and e2: "events s2 = events s1 @ platform_log named inferred
               @ [Call FilterReads, Return FilterReads ROther,
                  Call SummarizeQuality, Return SummarizeQuality ROther,
                  Call OpenDatabase, Return OpenDatabase ROther,
                  Call DetermineSpecies, Return DetermineSpecies (RSpecies sl)]"
          and p2: "printed s2 = printed s1 @ L2"
        by blast
      show thesis
      proof (cases "sl = []")
        case True
        with run3 have "r = Inl IndexError" "s' = s2"
          by (simp_all add: plan_fast_assembly_empty)
        with True pass1 e1 e2 show thesis
          by (intro that(3) [of "?ob created valid named inferred [] undefined
            undefined undefined undefined undefined"]) (simp_all add: log_defs)
      next
        case some: False
        from plan_fast_assembly_run [OF run3 some] obtain fast s3 L3
          where g3: "(if \<not> proceed fast \<and> \<not> force then return_value None
              else fast_assembly c N reads od force mash rs idm platform fr rq db (hd sl) fast)
              s3 = (r, s')"
            and e3: "events s3 = events s2
                 @ [Call FastStrategy, Return FastStrategy (RStrategy fast)]"
            and p3: "printed s3 = printed s2 @ L3 @ report_strategy fast"
          by blast
        show thesis
        proof (cases "\<not> proceed fast \<and> \<not> force")
          case True
          with g3 have "r = Inr None" "s' = s3" by (auto dest: halted)
          with True some pass1 e1 e2 e3 p3 show thesis
            by (intro that(4) [of "?ob created valid named inferred sl fast
              undefined undefined undefined undefined" "printed s2 @ L3"])
              (simp_all add: log_defs)
        next
          case pass3: False
          with g3 have run4: "fast_assembly c N reads od force mash rs idm platform fr rq db
              (hd sl) fast s3 = (r, s')"
            by simp
          from fast_assembly_run [OF run4] obtain ev s4 L4
            where g4: "(if \<not> success ev \<and> \<not> force then return_value None
                else evaluate_fast_assembly c N reads od force rs platform fr rq db (hd sl)
                  fast) s4 = (r, s')"
              and e4: "events s4 = events s3
                   @ [Call FastAssembly, Return FastAssembly ROther,
                      Call Contamination, Return Contamination (REvaluation ev)]"
              and p4: "printed s4 = printed s3 @ L4 @ report_contamination ev"
            by blast
          show thesis
          proof (cases "\<not> success ev \<and> \<not> force")
            case True
            with g4 have "r = Inr None" "s' = s4" by (auto dest: halted)
            with True pass3 some pass1 e1 e2 e3 e4 p4 show thesis
              by (intro that(5) [of "?ob created valid named inferred sl fast
                ev undefined undefined undefined" "printed s3 @ L4"])
                (simp_all add: log_defs)
          next
            case pass4: False
            with g4 have run5: "evaluate_fast_assembly c N reads od force rs platform fr rq db
                (hd sl) fast s4 = (r, s')"
              by simp
            from evaluate_fast_assembly_run [OF run5] obtain q1 ex s5 L5 fsx
              where g5: "(if \<not> proceed ex \<and> \<not> force then return_value None
                  else expert_assembly c N reads od platform (hd sl) rq db fast q1 ex) s5
                  = (r, s')"
                and e5: "events s5 = events s4
                     @ [Call FastMeasure, Return FastMeasure (RQuality q1),
                        Call FastML, Return FastML ROther,
                        Call ExpertStrategy, Return ExpertStrategy (RStrategy ex)]"
                and p5: "printed s5 = printed s4 @ L5 @ report_strategy ex"
                and d5: "ex = fst (create_expert_assembly_strategy c platform (hd sl) fr od rs
                     q1 db fsx)"
              by blast
            show thesis
            proof (cases "\<not> proceed ex \<and> \<not> force")
              case True
              with g5 have "r = Inr None" "s' = s5" by (auto dest: halted)
              with True pass4 pass3 some pass1 e1 e2 e3 e4 e5 p5 d5 show thesis
                by (intro that(6) [of "?ob created valid named inferred sl fast
                  ev q1 ex undefined" platform fr db fsx "printed s4 @ L5"])
                  (simp_all add: log_defs)
            next
              case pass5: False
              with g5 have run6: "expert_assembly c N reads od platform (hd sl) rq db fast q1 ex
                  s5 = (r, s')"
                by simp
              from expert_assembly_run [OF run6] obtain q2 s6 L6
                where run7: "finalize c N od (hd sl) q2 ex s6 = (r, s')"
                  and e6: "events s6 = events s5
                     @ [Call ExpertAssembly, Return ExpertAssembly ROther,
                        Call ExpertMeasure, Return ExpertMeasure (RQuality q2),
                        Call ExpertML, Return ExpertML ROther,
                        Call Heuristic, Return Heuristic ROther,
                        Call Compare, Return Compare ROther,
                        Call WriteCsv, Return WriteCsv ROther,
                        Call WriteJson, Return WriteJson ROther]"
                  and p6: "printed s6 = printed s5 @ L6"
                by blast
              from finalize_run [OF run7] show thesis
              proof (elim disjE exE conjE)
                fix e
                assume "r = Inl e" "events s' = events s6 @ [Call Rename]"
                with pass5 pass4 pass3 some pass1 e1 e2 e3 e4 e5 e6 d5 show thesis
                  by (intro that(7) [of "?ob created valid named inferred sl fast
                    ev q1 ex q2" platform fr db fsx e])
                    (simp_all add: log_defs)
              next
                fix fs1
                assume "os_rename (get_contigs_filename c (assembler ex))
                    (os_path_join od ''contigs.fasta'') (files s6) = Inr fs1"
                  "r = Inr (Some (AssemblySummary (hd sl) q2 (os_path_join od ''contigs.fasta'')))"
                  "events s' = events s6
                     @ [Call Rename, Return Rename ROther, Call Cleanup, Return Cleanup ROther]"
                  "printed s' = printed s6 @ [''Complete.\<newline>'']"
                  "files s' = cleanup_result N od fs1"
                with pass5 pass4 pass3 some pass1 e1 e2 e3 e4 e5 e6 d5 show thesis
                  by (intro that(8) [of "?ob created valid named inferred sl fast
                    ev q1 ex q2" platform fr db fsx "printed s6" "files s6" fs1])
                    (simp_all add: log_defs)
              qed
            qed
          qed
        qed
      qed
    qed
  qed
qed

subsection \<open>The concrete setting, part by part\<close>

lemma demo_fields:
  "species_str (demo v b c d sl) = species.name"
  "platform_value (demo v b c d sl)
     = (\<lambda>p. case p of UNIDENTIFIABLE \<Rightarrow> ''Unidentifiable'' | Identified n \<Rightarrow> n)"
  "are_valid_fastq (demo v b c d sl) = (\<lambda>reads fs. (v, fs))"
  "identify_name (demo v b c d sl)
     = (\<lambda>n fs. (if n = ''Illumina'' then Identified n else UNIDENTIFIABLE, fs))"
  "identify (demo v b c d sl) = (\<lambda>reads fs. (Identified ''Illumina'', fs))"
  "filter_reads (demo v b c d sl) = (\<lambda>reads dir fs.
       (\<lparr>forward = os_path_join dir ''fwd_filtered.fastq'', reverse = None\<rparr>,
        (os_path_join dir ''fwd_filtered.fastq'', File) # fs))"
  "summarize_quality (demo v b c d sl) = (\<lambda>reads dir fs. (30, fs))"
  "AssemblyDatabase (demo v b c d sl) = (\<lambda>p fs. ((), fs))"
  "get_file_locations (demo v b c d sl) = (\<lambda>reads. [forward reads])"
  "determine_species (demo v b c d sl) = (\<lambda>locations db dir mash idm hint fs.
       (sl, (os_path_join dir ''mash.o'', File) # fs))"
  "create_fast_assembly_strategy (demo v b c d sl) = (\<lambda>platform sp reads dir rs rq fs.
       (\<lparr>proceed = b,
         assembler = \<lparr>assembler.name = ''skesa'',
                      contigs_filename = os_path_join dir ''skesa/contigs.fasta''\<rparr>,
         strategy.report = ''Fast strategy.''\<rparr>, fs))"
  "assembler_assemble (demo v b c d sl) = (\<lambda>a fs.
       (''Assembled.'',
        (contigs_filename a, File) # (os_path_dirname (contigs_filename a), Dir) # fs))"
  "estimate_contamination (demo v b c d sl) = (\<lambda>sp contigs dir mash idm fs.
       (\<lparr>success = c, evaluation.report = ''Contamination report.''\<rparr>, fs))"
  "measure_quality (demo v b c d sl) = (\<lambda>contigs dir fs. (length contigs, fs))"
  "ml_evaluate (demo v b c d sl)
     = (\<lambda>sp q fs. (\<lparr>success = True, evaluation.report = ''Model report.''\<rparr>, fs))"
  "create_expert_assembly_strategy (demo v b c d sl) = (\<lambda>platform sp reads dir rs q db fs.
       (\<lparr>proceed = d,
         assembler = \<lparr>assembler.name = ''spades'',
                      contigs_filename = os_path_join dir ''spades/contigs.fasta''\<rparr>,
         strategy.report = ''Expert strategy.''\<rparr>, fs))"
  "heuristic_evaluate (demo v b c d sl) = (\<lambda>sp db q fs.
       (\<lparr>success = True, evaluation.report = ''Heuristic report.''\<rparr>, fs))"
  "compare_assemblies (demo v b c d sl) = (\<lambda>q1 q2 fs. (''Comparison.'', fs))"
  "write_csv (demo v b c d sl)
     = (\<lambda>dir names qs fs. ((), (os_path_join dir ''assembly_statistics.csv'', File) # fs))"
  "write_json (demo v b c d sl) = (\<lambda>dir platform sp reads rq q h m db fs.
       ((), (os_path_join dir ''assembly_info.json'', File) # fs))"
  "get_contigs_filename (demo v b c d sl) = contigs_filename"
  by (simp_all add: demo_def)

lemma demo_names_fields:
  "ContaminationHandler_FASTA_DIRECTORY demo_names = ''fasta''"
  "ReadFilterer_LOGFILE_FILENAME demo_names = ''fastp.log''"
  "ReadFilterer_FWD_FILTERED_FILENAME demo_names = ''fwd_filtered.fastq''"
  "ReadFilterer_REV_FILTERED_FILENAME demo_names = ''rev_filtered.fastq''"
  "SpeciesEstimator_OUTPUT_FILENAME demo_names = ''mash.o''"
  "AssemblyMeasurer_OUTPUT_FILENAME demo_names = ''quast.out''"
  "AssemblyMeasurer_ERROR_FILENAME demo_names = ''quast.err''"
  "SkesaAssembler_DIRECTORY_NAME demo_names = ''skesa''"
  "SpadesAssembler_DIRECTORY_NAME demo_names = ''spades''"
  by (simp_all add: demo_names_def)

lemmas step_defs = next_do_def os_call_def call_def print_lines_def return_value_def raise_def
  first_of_def

lemmas os_defs = os_path_join_def os_path_isdir_def os_path_isfile_def lookup_def os_mkdir_def
  parent_exists_def os_path_dirname_def os_rename_def cleanup_def Let_def and_then_def
  rmtree_def os_remove_def delete_entry_def delete_tree_def below_def

lemma demo_finalize:
  "finalize (demo v b c d sl) demo_names ''out'' sp q
     \<lparr>proceed = d,
      assembler = \<lparr>assembler.name = ''spades'',
                   contigs_filename = ''out/spades/contigs.fasta''\<rparr>,
      strategy.report = ''Expert strategy.''\<rparr>
     \<lparr>files = [(''out/assembly_info.json'', File), (''out/assembly_statistics.csv'', File),
        (''out/spades/contigs.fasta'', File), (''out/spades'', Dir),
        (''out/skesa/contigs.fasta'', File), (''out/skesa'', Dir),
        (''out/mash.o'', File), (''out/fwd_filtered.fastq'', File),
        (''out'', Dir), (''reads.fastq'', File)], printed = P, events = E\<rparr>
   = (Inr (Some (AssemblySummary sp q ''out/contigs.fasta'')),
      \<lparr>files = [(''out/contigs.fasta'', File), (''out/assembly_info.json'', File),
          (''out/assembly_statistics.csv'', File), (''out'', Dir), (''reads.fastq'', File)],
       printed = P @ [''Complete.\<newline>''],
       events = E @ [Call Rename, Return Rename ROther, Call Cleanup, Return Cleanup ROther]\<rparr>)"
  unfolding finalize_def
  by (simp add: step_defs demo_fields demo_names_fields os_defs)

lemma demo_expert_assembly:
  "expert_assembly (demo v b c d sl) demo_names reads ''out'' platform sp rq db fast q1
     \<lparr>proceed = d,
      assembler = \<lparr>assembler.name = ''spades'',
                   contigs_filename = ''out/spades/contigs.fasta''\<rparr>,
      strategy.report = ''Expert strategy.''\<rparr>
     \<lparr>files = [(''out/skesa/contigs.fasta'', File), (''out/skesa'', Dir),
        (''out/mash.o'', File), (''out/fwd_filtered.fastq'', File),
        (''out'', Dir), (''reads.fastq'', File)], printed = P, events = E\<rparr>
   = (Inr (Some (AssemblySummary sp 24 ''out/contigs.fasta'')),
      \<lparr>files = [(''out/contigs.fasta'', File), (''out/assembly_info.json'', File),
          (''out/assembly_statistics.csv'', File), (''out'', Dir), (''reads.fastq'', File)],
       printed = P @ [''Performing expert assembly.'', ''Assembled.'', ''Model report.'',
          ''Heuristic report.'', ''Comparison.'', ''Complete.\<newline>''],
       events = E @ [Call ExpertAssembly, Return ExpertAssembly ROther,
          Call ExpertMeasure, Return ExpertMeasure (RQuality 24),
          Call ExpertML, Return ExpertML ROther,
          Call Heuristic, Return Heuristic ROther,
          Call Compare, Return Compare ROther,
          Call WriteCsv, Return WriteCsv ROther,
          Call WriteJson, Return WriteJson ROther,
          Call Rename, Return Rename ROther, Call Cleanup, Return Cleanup ROther]\<rparr>)"
  unfolding expert_assembly_def
  by (simp add: step_defs demo_fields os_path_join_def os_path_dirname_def demo_finalize)


lemma demo_evaluate_fast_assembly:
  "evaluate_fast_assembly (demo v b c d sl) demo_names reads ''out'' force rs platform fr rq db sp
     \<lparr>proceed = b,
      assembler = \<lparr>assembler.name = ''skesa'',
                   contigs_filename = ''out/skesa/contigs.fasta''\<rparr>,
      strategy.report = ''Fast strategy.''\<rparr>
     \<lparr>files = [(''out/skesa/contigs.fasta'', File), (''out/skesa'', Dir),
        (''out/mash.o'', File), (''out/fwd_filtered.fastq'', File),
        (''out'', Dir), (''reads.fastq'', File)], printed = P, events = E\<rparr>
   = (if \<not> d \<and> \<not> force
      then (Inr None,
        \<lparr>files = [(''out/skesa/contigs.fasta'', File), (''out/skesa'', Dir),
           (''out/mash.o'', File), (''out/fwd_filtered.fastq'', File),
           (''out'', Dir), (''reads.fastq'', File)],
         printed = P @ [''Model report.'', ''Expert strategy.'',
           ''The assembly was unable to proceed.\<newline>''],
         events = E @ [Call FastMeasure, Return FastMeasure (RQuality 23),
           Call FastML, Return FastML ROther,
           Call ExpertStrategy, Return ExpertStrategy (RStrategy
             \<lparr>proceed = d,
              assembler = \<lparr>assembler.name = ''spades'',
                           contigs_filename = ''out/spades/contigs.fasta''\<rparr>,
              strategy.report = ''Expert strategy.''\<rparr>)]\<rparr>)
      else (Inr (Some (AssemblySummary sp 24 ''out/contigs.fasta'')),
        \<lparr>files = [(''out/contigs.fasta'', File), (''out/assembly_info.json'', File),
           (''out/assembly_statistics.csv'', File), (''out'', Dir), (''reads.fastq'', File)],
         printed = P @ [''Model report.'', ''Expert strategy.'']
           @ (if \<not> d then [''The assembly was unable to proceed.\<newline>''] else [])
           @ [''Performing expert assembly.'', ''Assembled.'', ''Model report.'',
              ''Heuristic report.'', ''Comparison.'', ''Complete.\<newline>''],
         events = E @ [Call FastMeasure, Return FastMeasure (RQuality 23),
           Call FastML, Return FastML ROther,
           Call ExpertStrategy, Return ExpertStrategy (RStrategy
             \<lparr>proceed = d,
              assembler = \<lparr>assembler.name = ''spades'',
                           contigs_filename = ''out/spades/contigs.fasta''\<rparr>,
              strategy.report = ''Expert strategy.''\<rparr>),
           Call ExpertAssembly, Return ExpertAssembly ROther,
           Call ExpertMeasure, Return ExpertMeasure (RQuality 24),
           Call ExpertML, Return ExpertML ROther,
           Call Heuristic, Return Heuristic ROther,
           Call Compare, Return Compare ROther,
           Call WriteCsv, Return WriteCsv ROther,
           Call WriteJson, Return WriteJson ROther,
           Call Rename, Return Rename ROther, Call Cleanup, Return Cleanup ROther]\<rparr>))"
  unfolding evaluate_fast_assembly_def
  by (simp add: step_defs demo_fields os_path_join_def report_strategy_def
      unable_to_proceed_def demo_expert_assembly)


lemma demo_fast_assembly:
  "fast_assembly (demo v b c d sl) demo_names reads ''out'' force mash rs idm platform fr rq db sp
     \<lparr>proceed = b,
      assembler = \<lparr>assembler.name = ''skesa'',
                   contigs_filename = ''out/skesa/contigs.fasta''\<rparr>,
      strategy.report = ''Fast strategy.''\<rparr>
     \<lparr>files = [(''out/mash.o'', File), (''out/fwd_filtered.fastq'', File),
           (''out'', Dir), (''reads.fastq'', File)], printed = P, events = E\<rparr>
   = (if \<not> c \<and> \<not> force
      then (Inr None,
        \<lparr>files = [(''out/skesa/contigs.fasta'', File), (''out/skesa'', Dir),
           (''out/mash.o'', File), (''out/fwd_filtered.fastq'', File),
           (''out'', Dir), (''reads.fastq'', File)],
         printed = P @ [''Assembled.'', ''Contamination report.'',
           ''The assembly was unable to proceed.\<newline>''],
         events = E @ [Call FastAssembly, Return FastAssembly ROther,
           Call Contamination, Return Contamination (REvaluation
             \<lparr>success = c, evaluation.report = ''Contamination report.''\<rparr>)]\<rparr>)
      else evaluate_fast_assembly (demo v b c d sl) demo_names reads ''out'' force rs platform
        fr rq db sp
        \<lparr>proceed = b,
      assembler = \<lparr>assembler.name = ''skesa'',
                   contigs_filename = ''out/skesa/contigs.fasta''\<rparr>,
      strategy.report = ''Fast strategy.''\<rparr>
        \<lparr>files = [(''out/skesa/contigs.fasta'', File), (''out/skesa'', Dir),
           (''out/mash.o'', File), (''out/fwd_filtered.fastq'', File),
           (''out'', Dir), (''reads.fastq'', File)],
         printed = P @ [''Assembled.'', ''Contamination report.'']
           @ (if \<not> c then [''The assembly was unable to proceed.\<newline>''] else []),
         events = E @ [Call FastAssembly, Return FastAssembly ROther,
           Call Contamination, Return Contamination (REvaluation
             \<lparr>success = c, evaluation.report = ''Contamination report.''\<rparr>)]\<rparr>)"
  unfolding fast_assembly_def
  by (simp add: step_defs demo_fields os_path_join_def os_path_dirname_def
      report_contamination_def unable_to_proceed_def)

lemma demo_to_fast_assembly:
  "demo_run v b c d unknown_then_coli force
   = (if \<not> v \<and> \<not> force
      then (Inr None,
        \<lparr>files = [(''out'', Dir), (''reads.fastq'', File)],
         printed = [''One or both of the reads are not in FASTQ format.''],
         events = [Call MakeDirectory, Return MakeDirectory ROther,
           Call ValidateFastq, Return ValidateFastq (RBool False)]\<rparr>)
      else if \<not> b \<and> \<not> force
      then (Inr None,
        \<lparr>files = [(''out/mash.o'', File), (''out/fwd_filtered.fastq'', File),
           (''out'', Dir), (''reads.fastq'', File)],
         printed = report_valid_fastq v
           @ [''\<newline>Attempting to identify the sequencing platform from the reads.'',
              ''Sequencing Platform: Illumina'', ''SPECIES: Unknown'',
              additional_species_warning, ''Escherichia coli'', '''', ''Fast strategy.'',
              ''The assembly was unable to proceed.\<newline>''],
         events = [Call MakeDirectory, Return MakeDirectory ROther,
           Call ValidateFastq, Return ValidateFastq (RBool v),
           Call IdentifyPlatform, Return IdentifyPlatform ROther,
           Call FilterReads, Return FilterReads ROther,
           Call SummarizeQuality, Return SummarizeQuality ROther,
           Call OpenDatabase, Return OpenDatabase ROther,
           Call DetermineSpecies, Return DetermineSpecies (RSpecies unknown_then_coli),
           Call FastStrategy, Return FastStrategy (RStrategy
             \<lparr>proceed = b,
      assembler = \<lparr>assembler.name = ''skesa'',
                   contigs_filename = ''out/skesa/contigs.fasta''\<rparr>,
      strategy.report = ''Fast strategy.''\<rparr>)]\<rparr>)
      else fast_assembly (demo v b c d unknown_then_coli) demo_names
        \<lparr>forward = ''reads.fastq'', reverse = None\<rparr> ''out'' force ''mash'' () ''idmap''
        (Identified ''Illumina'') \<lparr>forward = ''out/fwd_filtered.fastq'', reverse = None\<rparr>
        30 () \<lparr>species.name = ''Unknown''\<rparr>
        \<lparr>proceed = b,
      assembler = \<lparr>assembler.name = ''skesa'',
                   contigs_filename = ''out/skesa/contigs.fasta''\<rparr>,
      strategy.report = ''Fast strategy.''\<rparr>
        \<lparr>files = [(''out/mash.o'', File), (''out/fwd_filtered.fastq'', File),
           (''out'', Dir), (''reads.fastq'', File)],
         printed = report_valid_fastq v
           @ [''\<newline>Attempting to identify the sequencing platform from the reads.'',
              ''Sequencing Platform: Illumina'', ''SPECIES: Unknown'',
              additional_species_warning, ''Escherichia coli'', '''', ''Fast strategy.'']
           @ (if \<not> b then [''The assembly was unable to proceed.\<newline>''] else []),
         events = [Call MakeDirectory, Return MakeDirectory ROther,
           Call ValidateFastq, Return ValidateFastq (RBool v),
           Call IdentifyPlatform, Return IdentifyPlatform ROther,
           Call FilterReads, Return FilterReads ROther,
           Call SummarizeQuality, Return SummarizeQuality ROther,
           Call OpenDatabase, Return OpenDatabase ROther,
           Call DetermineSpecies, Return DetermineSpecies (RSpecies unknown_then_coli),
           Call FastStrategy, Return FastStrategy (RStrategy
             \<lparr>proceed = b,
      assembler = \<lparr>assembler.name = ''skesa'',
                   contigs_filename = ''out/skesa/contigs.fasta''\<rparr>,
      strategy.report = ''Fast strategy.''\<rparr>)]\<rparr>)"
  unfolding demo_run_def assemble_in_parts assemble_parts_def estimate_species_def
    plan_fast_assembly_def determine_platform_def
  by (simp add: step_defs demo_fields demo_start_def unknown_then_coli_def os_path_join_def
      os_path_isdir_def lookup_def os_mkdir_def parent_exists_def os_path_dirname_def
      report_valid_fastq_def report_platform_def report_strategy_def report_species_def
      slice_def unable_to_proceed_def Let_def)

subsection \<open>Six concrete runs\<close>

text \<open>
  Invalid reads, a rejected fast strategy, a contaminated assembly, a rejected expert
  strategy, a run in which every gate passes, and a forced run in which every gate fails.
\<close>

lemma demo_run_invalid:
  "demo_run False b c d unknown_then_coli False
   = (Inr None,
      \<lparr>files = [(''out'', Dir), (''reads.fastq'', File)],
       printed = [''One or both of the reads are not in FASTQ format.''],
       events = [Call MakeDirectory, Return MakeDirectory ROther,
         Call ValidateFastq, Return ValidateFastq (RBool False)]\<rparr>)"
  by (simp add: demo_to_fast_assembly)

lemma demo_run_fast_rejected:
  "demo_run True False c d unknown_then_coli False
   = (Inr None,
      \<lparr>files = [(''out/mash.o'', File), (''out/fwd_filtered.fastq'', File),
         (''out'', Dir), (''reads.fastq'', File)],
       printed = [''The reads appear to be formatted correctly.'',
         ''\<newline>Attempting to identify the sequencing platform from the reads.'',
         ''Sequencing Platform: Illumina'', ''SPECIES: Unknown'',
         additional_species_warning, ''Escherichia coli'', '''', ''Fast strategy.'',
         ''The assembly was unable to proceed.\<newline>''],
       events = [Call MakeDirectory, Return MakeDirectory ROther,
         Call ValidateFastq, Return ValidateFastq (RBool True),
         Call IdentifyPlatform, Return IdentifyPlatform ROther,
         Call FilterReads, Return FilterReads ROther,
         Call SummarizeQuality, Return SummarizeQuality ROther,
         Call OpenDatabase, Return OpenDatabase ROther,
         Call DetermineSpecies, Return DetermineSpecies (RSpecies unknown_then_coli),
         Call FastStrategy, Return FastStrategy (RStrategy
           \<lparr>proceed = False,
            assembler = \<lparr>assembler.name = ''skesa'',
                         contigs_filename = ''out/skesa/contigs.fasta''\<rparr>,
            strategy.report = ''Fast strategy.''\<rparr>)]\<rparr>)"
  by (simp add: demo_to_fast_assembly report_valid_fastq_def)

lemma demo_run_contaminated:
  "demo_run True True False d unknown_then_coli False
   = (Inr None,
      \<lparr>files = [(''out/skesa/contigs.fasta'', File), (''out/skesa'', Dir),
         (''out/mash.o'', File), (''out/fwd_filtered.fastq'', File),
         (''out'', Dir), (''reads.fastq'', File)],
       printed = [''The reads appear to be formatted correctly.'',
         ''\<newline>Attempting to identify the sequencing platform from the reads.'',
         ''Sequencing Platform: Illumina'', ''SPECIES: Unknown'',
         additional_species_warning, ''Escherichia coli'', '''', ''Fast strategy.'',
         ''Assembled.'', ''Contamination report.'',
         ''The assembly was unable to proceed.\<newline>''],
       events = [Call MakeDirectory, Return MakeDirectory ROther,
         Call ValidateFastq, Return ValidateFastq (RBool True),
         Call IdentifyPlatform, Return IdentifyPlatform ROther,
         Call FilterReads, Return FilterReads ROther,
         Call SummarizeQuality, Return SummarizeQuality ROther,
         Call OpenDatabase, Return OpenDatabase ROther,
         Call DetermineSpecies, Return DetermineSpecies (RSpecies unknown_then_coli),
         Call FastStrategy, Return FastStrategy (RStrategy
           \<lparr>proceed = True,
            assembler = \<lparr>assembler.name = ''skesa'',
                         contigs_filename = ''out/skesa/contigs.fasta''\<rparr>,
            strategy.report = ''Fast strategy.''\<rparr>)] @ [Call FastAssembly, Return FastAssembly ROther,
         Call Contamination, Return Contamination (REvaluation
           \<lparr>success = False, evaluation.report = ''Contamination report.''\<rparr>)]\<rparr>)"
  by (simp add: demo_to_fast_assembly demo_fast_assembly report_valid_fastq_def)

lemma demo_run_expert_rejected:
  "demo_run True True True False unknown_then_coli False
   = (Inr None,
      \<lparr>files = [(''out/skesa/contigs.fasta'', File), (''out/skesa'', Dir),
         (''out/mash.o'', File), (''out/fwd_filtered.fastq'', File),
         (''out'', Dir), (''reads.fastq'', File)],
       printed = [''The reads appear to be formatted correctly.'',
         ''\<newline>Attempting to identify the sequencing platform from the reads.'',
         ''Sequencing Platform: Illumina'', ''SPECIES: Unknown'',
         additional_species_warning, ''Escherichia coli'', '''', ''Fast strategy.'',
         ''Assembled.'', ''Contamination report.'', ''Model report.'', ''Expert strategy.'',
         ''The assembly was unable to proceed.\<newline>''],
       events = [Call MakeDirectory, Return MakeDirectory ROther,
         Call ValidateFastq, Return ValidateFastq (RBool True),
         Call IdentifyPlatform, Return IdentifyPlatform ROther,
         Call FilterReads, Return FilterReads ROther,
         Call SummarizeQuality, Return SummarizeQuality ROther,
         Call OpenDatabase, Return OpenDatabase ROther,
         Call DetermineSpecies, Return DetermineSpecies (RSpecies unknown_then_coli),
         Call FastStrategy, Return FastStrategy (RStrategy
           \<lparr>proceed = True,
            assembler = \<lparr>assembler.name = ''skesa'',
                         contigs_filename = ''out/skesa/contigs.fasta''\<rparr>,
            strategy.report = ''Fast strategy.''\<rparr>)] @ [Call FastAssembly, Return FastAssembly ROther,
         Call Contamination, Return Contamination (REvaluation
           \<lparr>success = True, evaluation.report = ''Contamination report.''\<rparr>)] @ [Call FastMeasure, Return FastMeasure (RQuality 23),
         Call FastML, Return FastML ROther,
         Call ExpertStrategy, Return ExpertStrategy (RStrategy
           \<lparr>proceed = False,
            assembler = \<lparr>assembler.name = ''spades'',
                         contigs_filename = ''out/spades/contigs.fasta''\<rparr>,
            strategy.report = ''Expert strategy.''\<rparr>)]\<rparr>)"
  by (simp add: demo_to_fast_assembly demo_fast_assembly demo_evaluate_fast_assembly
      report_valid_fastq_def)

lemma demo_run_passed:
  "demo_run True True True True unknown_then_coli False
   = (Inr (Some (AssemblySummary \<lparr>species.name = ''Unknown''\<rparr> 24 ''out/contigs.fasta'')),
      \<lparr>files = [(''out/contigs.fasta'', File), (''out/assembly_info.json'', File),
         (''out/assembly_statistics.csv'', File), (''out'', Dir), (''reads.fastq'', File)],
       printed = [''The reads appear to be formatted correctly.'',
         ''\<newline>Attempting to identify the sequencing platform from the reads.'',
         ''Sequencing Platform: Illumina'', ''SPECIES: Unknown'',
         additional_species_warning, ''Escherichia coli'', '''', ''Fast strategy.'',
         ''Assembled.'', ''Contamination report.'', ''Model report.'', ''Expert strategy.'',
         ''Performing expert assembly.'', ''Assembled.'', ''Model report.'',
         ''Heuristic report.'', ''Comparison.'', ''Complete.\<newline>''],
       events = [Call MakeDirectory, Return MakeDirectory ROther,
         Call ValidateFastq, Return ValidateFastq (RBool True),
         Call IdentifyPlatform, Return IdentifyPlatform ROther,
         Call FilterReads, Return FilterReads ROther,
         Call SummarizeQuality, Return SummarizeQuality ROther,
         Call OpenDatabase, Return OpenDatabase ROther,
         Call DetermineSpecies, Return DetermineSpecies (RSpecies unknown_then_coli),
         Call FastStrategy, Return FastStrategy (RStrategy
           \<lparr>proceed = True,
            assembler = \<lparr>assembler.name = ''skesa'',
                         contigs_filename = ''out/skesa/contigs.fasta''\<rparr>,
            strategy.report = ''Fast strategy.''\<rparr>)] @ [Call FastAssembly, Return FastAssembly ROther,
         Call Contamination, Return Contamination (REvaluation
           \<lparr>success = True, evaluation.report = ''Contamination report.''\<rparr>)] @ [Call FastMeasure, Return FastMeasure (RQuality 23),
         Call FastML, Return FastML ROther,
         Call ExpertStrategy, Return ExpertStrategy (RStrategy
           \<lparr>proceed = True,
            assembler = \<lparr>assembler.name = ''spades'',
                         contigs_filename = ''out/spades/contigs.fasta''\<rparr>,
            strategy.report = ''Expert strategy.''\<rparr>)] @ [Call ExpertAssembly, Return ExpertAssembly ROther,
         Call ExpertMeasure, Return ExpertMeasure (RQuality 24),
         Call ExpertML, Return ExpertML ROther,
         Call Heuristic, Return Heuristic ROther,
         Call Compare, Return Compare ROther,
         Call WriteCsv, Return WriteCsv ROther,
         Call WriteJson, Return WriteJson ROther,
         Call Rename, Return Rename ROther, Call Cleanup, Return Cleanup ROther]\<rparr>)"
  by (simp add: demo_to_fast_assembly demo_fast_assembly demo_evaluate_fast_assembly
      report_valid_fastq_def)

lemma demo_run_forced:
  "demo_run False False False False unknown_then_coli True
   = (Inr (Some (AssemblySummary \<lparr>species.name = ''Unknown''\<rparr> 24 ''out/contigs.fasta'')),
      \<lparr>files = [(''out/contigs.fasta'', File), (''out/assembly_info.json'', File),
         (''out/assembly_statistics.csv'', File), (''out'', Dir), (''reads.fastq'', File)],
       printed = [''One or both of the reads are not in FASTQ format.'',
         ''\<newline>Attempting to identify the sequencing platform from the reads.'',
         ''Sequencing Platform: Illumina'', ''SPECIES: Unknown'',
         additional_species_warning, ''Escherichia coli'', '''', ''Fast strategy.'',
         ''The assembly was unable to proceed.\<newline>'',
         ''Assembled.'', ''Contamination report.'',
         ''The assembly was unable to proceed.\<newline>'',
         ''Model report.'', ''Expert strategy.'',
         ''The assembly was unable to proceed.\<newline>'',
         ''Performing expert assembly.'', ''Assembled.'', ''Model report.'',
         ''Heuristic report.'', ''Comparison.'', ''Complete.\<newline>''],
       events = [Call MakeDirectory, Return MakeDirectory ROther,
         Call ValidateFastq, Return ValidateFastq (RBool False),
         Call IdentifyPlatform, Return IdentifyPlatform ROther,
         Call FilterReads, Return FilterReads ROther,
         Call SummarizeQuality, Return SummarizeQuality ROther,
         Call OpenDatabase, Return OpenDatabase ROther,
         Call DetermineSpecies, Return DetermineSpecies (RSpecies unknown_then_coli),
         Call FastStrategy, Return FastStrategy (RStrategy
           \<lparr>proceed = False,
            assembler = \<lparr>assembler.name = ''skesa'',
                         contigs_filename = ''out/skesa/contigs.fasta''\<rparr>,
            strategy.report = ''Fast strategy.''\<rparr>)] @ [Call FastAssembly, Return FastAssembly ROther,
         Call Contamination, Return Contamination (REvaluation
           \<lparr>success = False, evaluation.report = ''Contamination report.''\<rparr>)] @ [Call FastMeasure, Return FastMeasure (RQuality 23),
         Call FastML, Return FastML ROther,
         Call ExpertStrategy, Return ExpertStrategy (RStrategy
           \<lparr>proceed = False,
            assembler = \<lparr>assembler.name = ''spades'',
                         contigs_filename = ''out/spades/contigs.fasta''\<rparr>,
            strategy.report = ''Expert strategy.''\<rparr>)] @ [Call ExpertAssembly, Return ExpertAssembly ROther,
         Call ExpertMeasure, Return ExpertMeasure (RQuality 24),
         Call ExpertML, Return ExpertML ROther,
         Call Heuristic, Return Heuristic ROther,
         Call Compare, Return Compare ROther,
         Call WriteCsv, Return WriteCsv ROther,
         Call WriteJson, Return WriteJson ROther,
         Call Rename, Return Rename ROther, Call Cleanup, Return Cleanup ROther]\<rparr>)"
  by (simp add: demo_to_fast_assembly demo_fast_assembly demo_evaluate_fast_assembly
      report_valid_fastq_def)

subsection \<open>Logs, spared paths and the rename\<close>

lemma called_iff: "st \<in> set (called es) \<longleftrightarrow> Call st \<in> set es"
  by (induction es rule: called.induct) auto

lemma completes_firstD:
  "completes_first a b es \<Longrightarrow> i < length es \<Longrightarrow> es ! i = Call b
     \<Longrightarrow> \<exists>j<i. \<exists>v. es ! j = Return a v"
proof (induction a b es arbitrary: i rule: completes_first.induct)
  case (1 a b)
  then show ?case by simp
next
  case (2 a b st v es)
  show ?case
  proof (cases i)
    case 0
    with 2 show ?thesis by simp
  next
    case (Suc k)
    show ?thesis
    proof (cases "st = a")
      case True
      with Suc show ?thesis by (intro exI [where x = 0]) simp
    next
      case False
      with 2 Suc obtain j v' where "j < k" "es ! j = Return a v'" by fastforce
      with Suc show ?thesis by (intro exI [where x = "Suc j"]) simp
    qed
  qed
next
  case (3 a b st es)
  show ?case
  proof (cases i)
    case 0
    with 3 show ?thesis by simp
  next
    case (Suc k)
    with 3 obtain j v' where "j < k" "es ! j = Return a v'" by fastforce
    with Suc show ?thesis by (intro exI [where x = "Suc j"]) simp
  qed
qed





lemma print_each_result:
  "print_each str xs (sp, pr) = (last (sp # xs), pr @ map str xs)"
  by (induction xs arbitrary: sp pr) simp_all

lemma assemble_order:
  fixes c :: "('rq, 'q, 'db, 'rs) collaborators"
  assumes "assemble c N reads od force dbp mash rs idm sn pn
      \<lparr>files = fs, printed = [], events = []\<rparr> = (r, s')"
  shows "completes_first FastAssembly Contamination (events s')"
    and "completes_first FastMeasure ExpertStrategy (events s')"
    and "completes_first Rename Cleanup (events s')"
  using assms
  by (cases rule: assemble_cases; simp add: log_defs)+

lemma expert_strategy_derived:
  fixes c :: "('rq, 'q, 'db, 'rs) collaborators"
  assumes run: "assemble c N reads od force dbp mash rs idm sn pn
      \<lparr>files = fs, printed = [], events = []\<rparr> = (r, s')"
    and mem: "Return ExpertStrategy (RStrategy plan) \<in> set (events s')"
  shows "\<exists>q platform sp fr db fsx.
           Return FastMeasure (RQuality q) \<in> set (events s')
           \<and> plan = fst (create_expert_assembly_strategy c platform sp fr od rs q db fsx)"
  using run
proof (cases rule: assemble_cases)
  case (expert_rejected ob L platform fr db fsx)
  have "Return FastMeasure (RQuality (fast_metrics ob)) \<in> set (events s')"
    using expert_rejected(9) by (simp add: log_defs)
  moreover have "plan = expert_plan ob"
    using mem expert_rejected(9) by (auto simp: log_defs split: if_splits)
  ultimately show ?thesis using expert_rejected(5) by blast
next
  case (rename_failed ob e platform fr db fsx)
  have "Return FastMeasure (RQuality (fast_metrics ob)) \<in> set (events s')"
    using rename_failed(8) by (simp add: log_defs)
  moreover have "plan = expert_plan ob"
    using mem rename_failed(8) by (auto simp: log_defs split: if_splits)
  ultimately show ?thesis using rename_failed(5) by blast
next
  case (complete ob L fs1 fs2 platform fr db fsx)
  have "Return FastMeasure (RQuality (fast_metrics ob)) \<in> set (events s')"
    using complete(8) by (simp add: log_defs)
  moreover have "plan = expert_plan ob"
    using mem complete(8) by (auto simp: log_defs split: if_splits)
  ultimately show ?thesis using complete(5) by blast
qed (use mem in \<open>auto simp: log_defs split: if_splits\<close>)

section \<open>The claims\<close>



text \<open>
  Claim C2. In every run without the force flag in which validation returned false, the
  pipeline returns \<open>None\<close>, the only line printed is the message that the reads are not
  in FASTQ format, validation is the last event of the log, and no stage other than the
  creation of the output directory and validation was called: no contigs file is renamed, no
  CSV or JSON is written.
\<close>

theorem invalid_reads_halt:
  fixes c :: "('rq, 'q, 'db, 'rs) collaborators"
  assumes run: "assemble c N reads od force dbp mash rs idm sn pn
      \<lparr>files = fs, printed = [], events = []\<rparr> = (r, s')"
    and "\<not> force"
    and "Return ValidateFastq (RBool False) \<in> set (events s')"
  shows "r = Inr None
      \<and> printed s' = [''One or both of the reads are not in FASTQ format.'']
      \<and> last (events s') = Return ValidateFastq (RBool False)
      \<and> (called (events s') = [ValidateFastq]
           \<or> called (events s') = [MakeDirectory, ValidateFastq])"
  using assms
  by (cases rule: assemble_cases) (auto simp: log_defs report_valid_fastq_def split: if_splits)

theorem invalid_reads_halt_witness:
  "Return ValidateFastq (RBool False)
     \<in> set (events (snd (demo_run False True True True unknown_then_coli False)))
   \<and> fst (demo_run False True True True unknown_then_coli False) = Inr None
   \<and> printed (snd (demo_run False True True True unknown_then_coli False))
     = [''One or both of the reads are not in FASTQ format.'']
   \<and> called (events (snd (demo_run False True True True unknown_then_coli False)))
     = [MakeDirectory, ValidateFastq]"
proof -
  obtain r s' where res: "demo_run False True True True unknown_then_coli False = (r, s')"
    by (cases "demo_run False True True True unknown_then_coli False")
  have mem: "Return ValidateFastq (RBool False) \<in> set (events s')"
    using res by (auto simp: demo_run_invalid)
  have "\<not> False" by simp
  from invalid_reads_halt [OF res [unfolded demo_run_def demo_start_def] this mem] mem res
  show ?thesis
    by (auto simp: demo_run_invalid)
qed

text \<open>
  Claim C3. In every run without the force flag in which the fast strategy (stage 6) or the
  expert strategy (stage 11) came back with \<open>proceed\<close> false, the pipeline returns
  \<open>None\<close>, the return of that strategy is the last event of the log, the last lines
  printed are the strategy's report and the statement that the assembly was unable to
  proceed, and the assembler of that strategy is never called.
\<close>

theorem rejected_strategy_halt:
  fixes c :: "('rq, 'q, 'db, 'rs) collaborators"
  assumes run: "assemble c N reads od force dbp mash rs idm sn pn
      \<lparr>files = fs, printed = [], events = []\<rparr> = (r, s')"
    and "\<not> force"
    and "\<not> proceed plan"
  shows "(Return FastStrategy (RStrategy plan) \<in> set (events s') \<longrightarrow>
           r = Inr None
           \<and> last (events s') = Return FastStrategy (RStrategy plan)
           \<and> FastAssembly \<notin> set (called (events s'))
           \<and> (\<exists>L. printed s' = L @ [strategy.report plan, unable_to_proceed]))
       \<and> (Return ExpertStrategy (RStrategy plan) \<in> set (events s') \<longrightarrow>
           r = Inr None
           \<and> last (events s') = Return ExpertStrategy (RStrategy plan)
           \<and> ExpertAssembly \<notin> set (called (events s'))
           \<and> (\<exists>L. printed s' = L @ [strategy.report plan, unable_to_proceed]))"
  using assms
  by (cases rule: assemble_cases)
    (auto simp: log_defs report_strategy_def split: if_splits)

theorem rejected_strategy_halt_witness:
  "fst (demo_run True False True True unknown_then_coli False) = Inr None
   \<and> FastAssembly
       \<notin> set (called (events (snd (demo_run True False True True unknown_then_coli False))))
   \<and> fst (demo_run True True True False unknown_then_coli False) = Inr None
   \<and> ExpertAssembly
       \<notin> set (called (events (snd (demo_run True True True False unknown_then_coli False))))"
proof -
  let ?fast = "\<lparr>proceed = False,
      assembler = \<lparr>assembler.name = ''skesa'',
                   contigs_filename = ''out/skesa/contigs.fasta''\<rparr>,
      strategy.report = ''Fast strategy.''\<rparr>"
  let ?expert = "\<lparr>proceed = False,
      assembler = \<lparr>assembler.name = ''spades'',
                   contigs_filename = ''out/spades/contigs.fasta''\<rparr>,
      strategy.report = ''Expert strategy.''\<rparr>"
  obtain r1 s1 where res1: "demo_run True False True True unknown_then_coli False = (r1, s1)"
    by (cases "demo_run True False True True unknown_then_coli False")
  obtain r2 s2 where res2: "demo_run True True True False unknown_then_coli False = (r2, s2)"
    by (cases "demo_run True True True False unknown_then_coli False")
  have mem1: "Return FastStrategy (RStrategy ?fast) \<in> set (events s1)"
    using res1 by (auto simp: demo_run_fast_rejected)
  have mem2: "Return ExpertStrategy (RStrategy ?expert) \<in> set (events s2)"
    using res2 by (auto simp: demo_run_expert_rejected)
  have no: "\<not> False" by simp
  have "r1 = Inr None \<and> FastAssembly \<notin> set (called (events s1))"
    using rejected_strategy_halt [OF res1 [unfolded demo_run_def demo_start_def] no,
        of ?fast] mem1
    by simp
  moreover have "r2 = Inr None \<and> ExpertAssembly \<notin> set (called (events s2))"
    using rejected_strategy_halt [OF res2 [unfolded demo_run_def demo_start_def] no,
        of ?expert] mem2
    by simp
  ultimately show ?thesis
    by (simp add: res1 res2)
qed

text \<open>
  Claim C4. In every run without the force flag in which the contamination evaluation came
  back with \<open>success\<close> false, the pipeline returns \<open>None\<close>, the return of the evaluation
  is the last event of the log, the last lines printed are its report and the statement that
  the assembly was unable to proceed, and none of the later stages is called.
\<close>

theorem contamination_halt:
  fixes c :: "('rq, 'q, 'db, 'rs) collaborators"
  assumes run: "assemble c N reads od force dbp mash rs idm sn pn
      \<lparr>files = fs, printed = [], events = []\<rparr> = (r, s')"
    and "\<not> force"
    and "Return Contamination (REvaluation ev) \<in> set (events s')"
    and "\<not> success ev"
  shows "r = Inr None
      \<and> last (events s') = Return Contamination (REvaluation ev)
      \<and> (\<exists>L. printed s' = L @ [evaluation.report ev, unable_to_proceed])
      \<and> set (called (events s')) \<inter> {FastMeasure, FastML, ExpertStrategy, ExpertAssembly,
           ExpertMeasure, ExpertML, Heuristic, Compare, WriteCsv, WriteJson, Rename, Cleanup}
          = {}"
  using assms
  by (cases rule: assemble_cases)
    (auto simp: log_defs report_contamination_def split: if_splits)

theorem contamination_halt_witness:
  "fst (demo_run True True False True unknown_then_coli False) = Inr None
   \<and> last (events (snd (demo_run True True False True unknown_then_coli False)))
     = Return Contamination
         (REvaluation \<lparr>success = False, evaluation.report = ''Contamination report.''\<rparr>)
   \<and> FastMeasure
       \<notin> set (called (events (snd (demo_run True True False True unknown_then_coli False))))"
proof -
  let ?ev = "\<lparr>success = False, evaluation.report = ''Contamination report.''\<rparr>"
  obtain r s' where res: "demo_run True True False True unknown_then_coli False = (r, s')"
    by (cases "demo_run True True False True unknown_then_coli False")
  have mem: "Return Contamination (REvaluation ?ev) \<in> set (events s')"
    using res by (auto simp: demo_run_contaminated)
  have no: "\<not> False" by simp
  have bad: "\<not> success ?ev" by simp
  from contamination_halt [OF res [unfolded demo_run_def demo_start_def] no mem bad]
  have "r = Inr None" "last (events s') = Return Contamination (REvaluation ?ev)"
    "FastMeasure \<notin> set (called (events s'))"
    by auto
  then show ?thesis
    by (simp add: res)
qed

text \<open>
  Claim C5. In every run, a call of the contamination evaluation comes after a return of the
  fast assembly, and a call of the expert-strategy derivation comes after a return of the
  fast-assembly quality measurement; the expert strategy is what
  \<open>create_expert_assembly_strategy\<close> returns for the quality that measurement returned.
\<close>

theorem stage_order:
  fixes c :: "('rq, 'q, 'db, 'rs) collaborators"
  assumes run: "assemble c N reads od force dbp mash rs idm sn pn
      \<lparr>files = fs, printed = [], events = []\<rparr> = (r, s')"
  shows "(\<forall>i<length (events s'). events s' ! i = Call Contamination
            \<longrightarrow> (\<exists>j<i. \<exists>v. events s' ! j = Return FastAssembly v))
       \<and> (\<forall>i<length (events s'). events s' ! i = Call ExpertStrategy
            \<longrightarrow> (\<exists>j<i. \<exists>v. events s' ! j = Return FastMeasure v))
       \<and> (\<forall>plan. Return ExpertStrategy (RStrategy plan) \<in> set (events s')
            \<longrightarrow> (\<exists>q platform sp fr db fsx.
                  Return FastMeasure (RQuality q) \<in> set (events s')
                  \<and> plan = fst (create_expert_assembly_strategy c platform sp fr od rs q db
                        fsx)))"
proof (intro conjI)
  show "\<forall>i<length (events s'). events s' ! i = Call Contamination
            \<longrightarrow> (\<exists>j<i. \<exists>v. events s' ! j = Return FastAssembly v)"
    using completes_firstD [OF assemble_order(1) [OF run]] by blast
  show "\<forall>i<length (events s'). events s' ! i = Call ExpertStrategy
            \<longrightarrow> (\<exists>j<i. \<exists>v. events s' ! j = Return FastMeasure v)"
    using completes_firstD [OF assemble_order(2) [OF run]] by blast
  show "\<forall>plan. Return ExpertStrategy (RStrategy plan) \<in> set (events s')
            \<longrightarrow> (\<exists>q platform sp fr db fsx.
                  Return FastMeasure (RQuality q) \<in> set (events s')
                  \<and> plan = fst (create_expert_assembly_strategy c platform sp fr od rs q db
                        fsx))"
    using expert_strategy_derived [OF run] by blast
qed

theorem stage_order_witness:
  "events (snd (demo_run False False False False unknown_then_coli True)) ! 18
     = Call Contamination
   \<and> (\<exists>j<18. \<exists>v. events (snd (demo_run False False False False unknown_then_coli True)) ! j
         = Return FastAssembly v)
   \<and> events (snd (demo_run False False False False unknown_then_coli True)) ! 24
     = Call ExpertStrategy
   \<and> (\<exists>j<24. \<exists>v. events (snd (demo_run False False False False unknown_then_coli True)) ! j
         = Return FastMeasure v)"
proof -
  obtain r s' where res: "demo_run False False False False unknown_then_coli True = (r, s')"
    by (cases "demo_run False False False False unknown_then_coli True")
  have at: "events s' ! 18 = Call Contamination" "events s' ! 24 = Call ExpertStrategy"
    "18 < length (events s')" "24 < length (events s')"
    using res by (auto simp: demo_run_forced)
  note order = stage_order [OF res [unfolded demo_run_def demo_start_def]]
  from order at have "\<exists>j<18. \<exists>v. events s' ! j = Return FastAssembly v" by blast
  moreover from order at have "\<exists>j<24. \<exists>v. events s' ! j = Return FastMeasure v" by blast
  ultimately show ?thesis using at by (simp add: res)
qed

text \<open>
  Claim C6. Calling \<open>cleanup\<close> twice in a row on the same output directory leaves the
  same file system as calling it once: every deletion is guarded by an existence check,
  so the first call raises nothing, and the second call raises nothing and deletes nothing.
\<close>

theorem cleanup_idempotent:
  "\<exists>fs'. cleanup N d fs = Inr fs' \<and> cleanup N d fs' = Inr fs'"
  using cleanup_never_raises cleanup_result_fixed by metis

theorem cleanup_idempotent_witness:
  "cleanup demo_names ''out'' cluttered
     = Inr [(''out'', Dir), (''out/contigs.fasta'', File), (''out/quast.out'', Dir)]
   \<and> cleanup demo_names ''out''
       [(''out'', Dir), (''out/contigs.fasta'', File), (''out/quast.out'', Dir)]
     = Inr [(''out'', Dir), (''out/contigs.fasta'', File), (''out/quast.out'', Dir)]"
proof -
  have first: "cleanup demo_names ''out'' cluttered
     = Inr [(''out'', Dir), (''out/contigs.fasta'', File), (''out/quast.out'', Dir)]"
    by (simp add: cleanup_def demo_names_def cluttered_def os_path_join_def Let_def
        and_then_def os_path_isdir_def os_path_isfile_def lookup_def rmtree_def os_remove_def
        delete_tree_def delete_entry_def below_def)
  from cleanup_idempotent [of demo_names "''out''" cluttered] first show ?thesis
    by auto
qed



text \<open>
  Claim C8 says that the report of every gated stage states that the pipeline "was unable
  to proceed" when its gate fails. The report of failed validation does not contain these
  words.
\<close>

theorem validation_report_counterexample:
  "\<not> list_ex (sublist ''was unable to proceed'') (report_valid_fastq False)"
  by (simp add: report_valid_fastq_def sublist_code)

text \<open>
  Claim C8, amended. When a strategy has \<open>proceed\<close> false, the last line of
  \<open>report_strategy\<close> is "The assembly was unable to proceed."; when an evaluation has
  \<open>success\<close> false, the last line of \<open>report_contamination\<close> is the same sentence. The
  report of failed validation is the single line "One or both of the reads are not in FASTQ
  format.".
\<close>

theorem gate_reports:
  "(\<not> proceed plan \<longrightarrow>
      last (report_strategy plan) = ''The assembly was unable to proceed.\<newline>'')
   \<and> (\<not> success ev \<longrightarrow>
      last (report_contamination ev) = ''The assembly was unable to proceed.\<newline>'')
   \<and> sublist ''was unable to proceed'' ''The assembly was unable to proceed.\<newline>''
   \<and> report_valid_fastq False = [''One or both of the reads are not in FASTQ format.'']"
  by (simp add: report_strategy_def report_contamination_def report_valid_fastq_def
      unable_to_proceed_def sublist_code)

theorem gate_reports_witness:
  "\<not> proceed \<lparr>proceed = False,
       assembler = \<lparr>assembler.name = ''skesa'', contigs_filename = ''out/skesa/contigs.fasta''\<rparr>,
       strategy.report = ''Fast strategy.''\<rparr>
   \<and> report_strategy \<lparr>proceed = False,
       assembler = \<lparr>assembler.name = ''skesa'', contigs_filename = ''out/skesa/contigs.fasta''\<rparr>,
       strategy.report = ''Fast strategy.''\<rparr>
     = [''Fast strategy.'', ''The assembly was unable to proceed.\<newline>'']
   \<and> \<not> success \<lparr>success = False, evaluation.report = ''Contamination report.''\<rparr>
   \<and> report_contamination \<lparr>success = False, evaluation.report = ''Contamination report.''\<rparr>
     = [''Contamination report.'', ''The assembly was unable to proceed.\<newline>'']"
  using gate_reports [of "\<lparr>proceed = False,
       assembler = \<lparr>assembler.name = ''skesa'', contigs_filename = ''out/skesa/contigs.fasta''\<rparr>,
       strategy.report = ''Fast strategy.''\<rparr>"
      "\<lparr>success = False, evaluation.report = ''Contamination report.''\<rparr>"]
  by (simp add: report_strategy_def report_contamination_def unable_to_proceed_def)

text \<open>
  Claim C9 says that a top candidate named "Unknown" makes the pipeline print the warning
  that no species could be determined, and continue. The loop over the additional species
  in \<open>report_species\<close> reuses the variable \<open>species\<close>, so the name tested afterwards is
  that of the last species listed. With the candidates "Unknown" and "Escherichia coli" the
  run continues to the end, and the warning is not printed.
\<close>

theorem unknown_top_candidate_without_warning:
  "species.name (hd unknown_then_coli) = ''Unknown''
   \<and> fst (demo_run True True True True unknown_then_coli False)
     = Inr (Some (AssemblySummary \<lparr>species.name = ''Unknown''\<rparr> 24 ''out/contigs.fasta''))
   \<and> unknown_species_warning
       \<notin> set (printed (snd (demo_run True True True True unknown_then_coli False)))
   \<and> report_species species.name unknown_then_coli
     = Inr [''SPECIES: Unknown'', additional_species_warning, ''Escherichia coli'', []]"
proof -
  have top: "species.name (hd unknown_then_coli) = ''Unknown''"
    by (simp add: unknown_then_coli_def)
  have run: "fst (demo_run True True True True unknown_then_coli False)
     = Inr (Some (AssemblySummary \<lparr>species.name = ''Unknown''\<rparr> 24 ''out/contigs.fasta''))"
    by (simp add: demo_run_passed)
  have silent: "unknown_species_warning
       \<notin> set (printed (snd (demo_run True True True True unknown_then_coli False)))"
    by (simp add: demo_run_passed unknown_species_warning_def additional_species_warning_def)
  have lines: "report_species species.name unknown_then_coli
     = Inr [''SPECIES: Unknown'', additional_species_warning, ''Escherichia coli'', []]"
    by (simp add: unknown_then_coli_def report_species_def slice_def)
  from top run silent lines show ?thesis by blast
qed

text \<open>
  Claim C10. For a non-empty candidate list, \<open>report_species\<close> prints the line of the top
  candidate, then, exactly when the list has more than one element, the warning about
  additional species followed by the candidates at positions 1 to 4 of the list (at most
  four lines), then possibly the warning about an undetermined species, then an empty
  line.
\<close>

theorem report_species_lines:
  assumes "sl \<noteq> []"
  shows "report_species str sl
     = Inr ([''SPECIES: '' @ str (hd sl)]
         @ (if 1 < length sl then additional_species_warning # map str (take 4 (tl sl)) else [])
         @ (if species.name (last (take 5 sl)) = ''Unknown'' then [unknown_species_warning]
            else [])
         @ [''''])
   \<and> (additional_species_warning \<in> set
         ([''SPECIES: '' @ str (hd sl)]
          @ (if 1 < length sl then additional_species_warning # map str (take 4 (tl sl))
             else [])
          @ (if species.name (last (take 5 sl)) = ''Unknown'' then [unknown_species_warning]
             else [])
          @ [''''])
       \<longleftrightarrow> 1 < length sl)
   \<and> length (take 4 (tl sl)) \<le> 4"
proof -
  obtain x xs where sl: "sl = x # xs" using assms by (cases sl) auto
  have slice: "slice (Suc 0) (Suc (min 4 (length xs))) (x # xs) = take 4 xs"
    by (simp add: slice_def min_def)
  have eq: "report_species str (x # xs)
     = Inr ([''SPECIES: '' @ str x]
         @ (if xs \<noteq> [] then additional_species_warning # map str (take 4 xs) else [])
         @ (if species.name (last (x # take 4 xs)) = ''Unknown'' then [unknown_species_warning]
            else [])
         @ [''''])"
  proof (cases "xs = []")
    case True
    then show ?thesis by (simp add: report_species_def)
  next
    case False
    then show ?thesis
      by (simp add: report_species_def print_each_result slice del: last.simps)
  qed
  have take5: "take 5 (x # xs) = x # take 4 xs"
    by (simp add: take_Cons')
  have differ: "additional_species_warning \<noteq> unknown_species_warning"
    "additional_species_warning \<noteq> []"
    "\<And>t. additional_species_warning \<noteq> ''SPECIES: '' @ t"
    by (simp_all add: additional_species_warning_def unknown_species_warning_def)
  show ?thesis
    unfolding sl eq take5
    using differ by (simp del: last.simps)
qed

theorem report_species_lines_witness:
  "unknown_then_coli \<noteq> []
   \<and> report_species species.name unknown_then_coli
     = Inr [''SPECIES: Unknown'', additional_species_warning, ''Escherichia coli'', []]"
  using report_species_lines [of unknown_then_coli species.name]
  by (simp add: unknown_then_coli_def)

end
